theory Spec2Isabelle
  imports Complex_Main "HOL-Library.Word"
begin

section \<open>Python values used by the inference service\<close>

subsection \<open>Floats\<close>

text \<open>
  A Python \<^verbatim>\<open>float\<close> is an IEEE double: a finite value (which denotes one real number
  exactly), one of the two infinities, or a NaN. The model keeps the real number a finite
  double denotes; every real is allowed, so a statement about all \<open>Finite r\<close> covers all
  finite doubles. Comparisons of doubles are exact: they compare the denoted reals, and
  every ordered comparison with a NaN is \<^verbatim>\<open>False\<close>.
\<close>

datatype pyfloat = Finite real | PosInf | NegInf | NaN

fun float_gt :: "pyfloat \<Rightarrow> pyfloat \<Rightarrow> bool" where
  "float_gt NaN y = False"
| "float_gt x NaN = False"
| "float_gt (Finite x) (Finite y) = (y < x)"
| "float_gt (Finite x) PosInf = False"
| "float_gt (Finite x) NegInf = True"
| "float_gt PosInf PosInf = False"
| "float_gt PosInf y = True"
| "float_gt NegInf y = False"

fun float_le :: "pyfloat \<Rightarrow> pyfloat \<Rightarrow> bool" where
  "float_le NaN y = False"
| "float_le x NaN = False"
| "float_le (Finite x) (Finite y) = (x \<le> y)"
| "float_le (Finite x) PosInf = True"
| "float_le (Finite x) NegInf = False"
| "float_le PosInf PosInf = True"
| "float_le PosInf y = False"
| "float_le NegInf y = True"

text \<open>
  The float literals of the source. \<^verbatim>\<open>0.5\<close> is a double; \<^verbatim>\<open>0.9\<close> and \<^verbatim>\<open>0.8\<close> are
  not, and the literal denotes the nearest double,
  \<^verbatim>\<open>Fraction(0.9) = 8106479329266893 / 2**53\<close> and
  \<^verbatim>\<open>Fraction(0.8) = 3602879701896397 / 2**52\<close>.
\<close>

definition lit_0_9 :: pyfloat where
  "lit_0_9 = Finite (8106479329266893 / 9007199254740992)"

definition lit_0_8 :: pyfloat where
  "lit_0_8 = Finite (3602879701896397 / 4503599627370496)"

definition lit_0_5 :: pyfloat where
  "lit_0_5 = Finite (1 / 2)"

text \<open>The sample probabilities of the specification, as the doubles their literals denote.\<close>

definition lit_0_95 :: pyfloat where
  "lit_0_95 = Finite (4278419646001971 / 4503599627370496)"

definition lit_0_85 :: pyfloat where
  "lit_0_85 = Finite (7656119366529843 / 9007199254740992)"

definition lit_0_6 :: pyfloat where
  "lit_0_6 = Finite (5404319552844595 / 9007199254740992)"

definition lit_0_3 :: pyfloat where
  "lit_0_3 = Finite (5404319552844595 / 18014398509481984)"

text \<open>A probability in the closed interval \<open>[0,1]\<close>.\<close>

fun in_unit_interval :: "pyfloat \<Rightarrow> bool" where
  "in_unit_interval (Finite r) = (0 \<le> r \<and> r \<le> 1)"
| "in_unit_interval x = False"

subsection \<open>Strings\<close>

text \<open>
  Strings are the UTF-8 bytes of the Python string. The only non-ASCII text of the
  source is the warning sign U+26A0 followed by the variation selector U+FE0F.
\<close>

definition warning_sign :: string where
  "warning_sign = [CHR 0xE2, CHR 0x9A, CHR 0xA0, CHR 0xEF, CHR 0xB8, CHR 0x8F]"

section \<open>Severity classifier\<close>

text \<open>\<^verbatim>\<open>get_severity\<close> of \<^verbatim>\<open>pneumonia-api/main.py\<close>; Python's \<^verbatim>\<open>None\<close> is \<open>None\<close>.\<close>

definition get_severity :: "pyfloat \<Rightarrow> string option" where
  "get_severity confidence =
     (if float_gt confidence lit_0_9 then Some ''Severe''
      else if float_gt confidence lit_0_8 then Some ''Moderate''
      else if float_gt confidence lit_0_5 then Some ''Mild''
      else None)"

section \<open>Recommendation generator\<close>

definition base_recommendations :: "string list" where
  "base_recommendations =
     [''Consult with a healthcare provider'',
      ''Monitor breathing and oxygen levels'',
      ''Rest and maintain good hydration'']"

definition severe_recommendations :: "string list" where
  "severe_recommendations =
     [warning_sign @ '' SEEK IMMEDIATE EMERGENCY CARE'',
      ''High risk - immediate medical attention required'',
      ''Prepare for possible hospitalization'',
      ''Monitor oxygen saturation closely''] @ base_recommendations"

definition moderate_recommendations :: "string list" where
  "moderate_recommendations =
     [''Seek urgent medical attention'',
      ''Begin prescribed treatments promptly'',
      ''Schedule follow-up chest X-rays''] @ base_recommendations"

definition mild_recommendations :: "string list" where
  "mild_recommendations =
     [''Schedule medical evaluation''] @ base_recommendations @
     [''Follow up with chest X-rays as advised'',
      ''Complete prescribed medications if given'']"

definition normal_recommendations :: "string list" where
  "normal_recommendations =
     [''Continue normal health monitoring'',
      ''Maintain good respiratory hygiene'',
      ''Stay current with vaccinations'',
      ''Follow up if new symptoms develop'']"

text \<open>
  \<^verbatim>\<open>get_recommendations(confidence, severity=None)\<close>. The severity argument is whatever
  the caller passes: \<^verbatim>\<open>None\<close> or a string, compared with \<^verbatim>\<open>==\<close>.
\<close>

definition get_recommendations :: "pyfloat \<Rightarrow> string option \<Rightarrow> string list" where
  "get_recommendations confidence severity =
     (if float_gt confidence lit_0_5 then
        (if severity = Some ''Severe'' then severe_recommendations
         else if severity = Some ''Moderate'' then moderate_recommendations
         else mild_recommendations)
      else normal_recommendations)"

section \<open>Exceptions and outcomes\<close>

text \<open>
  A library call, or a \<^verbatim>\<open>raise\<close> of the source, fails with an instance of a subclass
  of \<^verbatim>\<open>Exception\<close>: its class name and its \<^verbatim>\<open>str(e)\<close>. A call returns
  \<open>Inl e\<close> when it raises \<open>e\<close> and \<open>Inr v\<close> when it returns \<open>v\<close>.
\<close>

datatype pyerror = PyError (err_class: string) (err_str: string)

text \<open>
  What a block of the program can raise: an ordinary exception, FastAPI's
  \<^verbatim>\<open>HTTPException(status_code, detail)\<close>, or \<^verbatim>\<open>SystemExit(code)\<close> from
  \<^verbatim>\<open>sys.exit\<close>, which derives from \<^verbatim>\<open>BaseException\<close> only.
\<close>

datatype raised = Exception pyerror | HTTPException nat string | SystemExit int

datatype 'a outcome = Return 'a | Raise raised

text \<open>
  \<^verbatim>\<open>try: body except Exception as e: handler\<close>, with the state the body has reached
  when it raises. \<^verbatim>\<open>SystemExit\<close> passes through. No guarded block of this repository
  raises an \<^verbatim>\<open>HTTPException\<close>, so that case does not arise.
\<close>

definition try_except_Exception ::
  "'a outcome \<times> 's \<Rightarrow> (pyerror \<Rightarrow> 's \<Rightarrow> 'a outcome \<times> 's) \<Rightarrow> 'a outcome \<times> 's" where
  "try_except_Exception body handler =
     (case body of
        (Raise (Exception e), s) \<Rightarrow> handler e s
      | (other, s) \<Rightarrow> (other, s))"

text \<open>Indexing a sequence by a non-negative constant; out of range raises \<^verbatim>\<open>IndexError\<close>.\<close>

definition py_index :: "'a list \<Rightarrow> nat \<Rightarrow> pyerror + 'a" where
  "py_index xs i =
     (if i < length xs then Inr (xs ! i)
      else Inl (PyError ''IndexError'' ''index out of range''))"

section \<open>Image normalizer\<close>

text \<open>\<^verbatim>\<open>sep in s\<close> for strings.\<close>

fun py_contains :: "string \<Rightarrow> string \<Rightarrow> bool" where
  "py_contains sep [] = (sep = [])"
| "py_contains sep (c # cs) = (take (length sep) (c # cs) = sep \<or> py_contains sep cs)"

text \<open>
  \<^verbatim>\<open>s.split(sep)\<close> for a non-empty separator: scan from the left, cut at each
  occurrence and continue after it. \<open>acc\<close> holds the current piece, reversed.
\<close>

function py_split :: "string \<Rightarrow> string \<Rightarrow> string \<Rightarrow> string list" where
  "py_split sep acc [] = [rev acc]"
| "py_split sep acc (c # cs) =
     (if sep \<noteq> [] \<and> take (length sep) (c # cs) = sep
      then rev acc # py_split sep [] (drop (length sep) (c # cs))
      else py_split sep (c # acc) cs)"
  by pat_completeness auto
termination
  by (relation "measure (\<lambda>(sep, acc, s). length s)") (auto simp: neq_Nil_conv)

text \<open>
  The calls into PIL, base64, numpy, os and Keras are parameters: each may raise. A loaded
  Keras model is its \<^verbatim>\<open>predict\<close> method, returning a two-dimensional array.
\<close>

type_synonym 't keras_model = "'t \<Rightarrow> pyerror + pyfloat list list"

record ('img, 't) env =
  path_exists :: "string \<Rightarrow> bool"
  keras_load_model :: "string \<Rightarrow> pyerror + 't keras_model"
  b64decode :: "string \<Rightarrow> pyerror + string"
  image_open :: "string \<Rightarrow> pyerror + 'img"
  image_mode :: "'img \<Rightarrow> string"
  image_convert :: "'img \<Rightarrow> string \<Rightarrow> pyerror + 'img"
  image_resize :: "'img \<Rightarrow> nat \<times> nat \<Rightarrow> pyerror + 'img"
  array_divide :: "'img \<Rightarrow> pyfloat \<Rightarrow> pyerror + 't"
  expand_dims :: "'t \<Rightarrow> nat \<Rightarrow> pyerror + 't"
  format_percent :: "pyfloat \<Rightarrow> string"

definition lit_255 :: pyfloat where
  "lit_255 = Finite 255"

text \<open>
  \<^verbatim>\<open>preprocess_image\<close>. \<open>array_divide env img d\<close> is \<^verbatim>\<open>np.array(img) / d\<close> and
  \<open>expand_dims env a 0\<close> is \<^verbatim>\<open>np.expand_dims(a, axis=0)\<close>.
\<close>

definition preprocess_image :: "('img, 't) env \<Rightarrow> string \<Rightarrow> pyerror + 't" where
  "preprocess_image env image_data =
     (case (if py_contains ''base64,'' image_data
            then py_index (py_split ''base64,'' [] image_data) 1
            else Inr image_data) of
        Inl e \<Rightarrow> Inl e
      | Inr image_data1 \<Rightarrow>
     (case b64decode env image_data1 of
        Inl e \<Rightarrow> Inl e
      | Inr bytes \<Rightarrow>
     (case image_open env bytes of
        Inl e \<Rightarrow> Inl e
      | Inr img \<Rightarrow>
     (case (if image_mode env img \<noteq> ''RGB''
            then image_convert env img ''RGB''
            else Inr img) of
        Inl e \<Rightarrow> Inl e
      | Inr img1 \<Rightarrow>
     (case image_resize env img1 (224, 224) of
        Inl e \<Rightarrow> Inl e
      | Inr img2 \<Rightarrow>
     (case array_divide env img2 lit_255 of
        Inl e \<Rightarrow> Inl e
      | Inr img_array \<Rightarrow> expand_dims env img_array 0))))))"

section \<open>The service: model loading, /predict and /health\<close>

text \<open>
  The module's global \<^verbatim>\<open>model\<close> is the state of the service. \<open>events\<close> records, in
  order, the calls the service has made to \<^verbatim>\<open>load_model\<close>, \<^verbatim>\<open>preprocess_image\<close> and
  \<^verbatim>\<open>model.predict\<close>, and the lines it has printed.
\<close>

datatype event = Call_load_model | Call_preprocess_image | Call_model_predict | Print string

record 't server =
  model :: "'t keras_model option"
  events :: "event list"

definition initial_server :: "'t server" where
  "initial_server = \<lparr>model = None, events = []\<rparr>"

definition emit :: "event \<Rightarrow> 't server \<Rightarrow> 't server" where
  "emit ev s = s\<lparr>events := events s @ [ev]\<rparr>"

definition model_path :: string where
  "model_path = ''pneumonia_detection_model.h5''"

definition load_model :: "('img, 't) env \<Rightarrow> 't server \<Rightarrow> unit outcome \<times> 't server" where
  "load_model env s =
     (let s1 = emit Call_load_model s in
      if path_exists env model_path then
        (case keras_load_model env model_path of
           Inl e \<Rightarrow> (Raise (Exception e), s1)
         | Inr m \<Rightarrow>
             (Return (),
              emit (Print (''Model loaded successfully from '' @ model_path))
                (s1\<lparr>model := Some m\<rparr>)))
      else
        (Raise (Exception (PyError ''FileNotFoundError''
                             (''Model file not found at '' @ model_path))), s1))"

definition startup_event :: "('img, 't) env \<Rightarrow> 't server \<Rightarrow> unit outcome \<times> 't server" where
  "startup_event env s =
     try_except_Exception (load_model env s)
       (\<lambda>e s1. (Return (), emit (Print (''Error loading model: '' @ err_str e)) s1))"

record details =
  lungOpacity :: string
  infiltrates :: string
  consolidation :: string
  severity :: "string option"

record prediction_result =
  prediction :: string
  confidence :: pyfloat
  pneumoniaProbability :: pyfloat
  details :: details
  recommendations :: "string list"

text \<open>
  The response dictionary of \<^verbatim>\<open>predict\<close>. \<open>format_percent env p\<close> is the text of
  \<^verbatim>\<open>f"{(p * 100):.1f}"\<close>.
\<close>

definition build_result :: "('img, 't) env \<Rightarrow> pyfloat \<Rightarrow> prediction_result" where
  "build_result env pneumonia_probability =
     (let is_pneumonia = float_gt pneumonia_probability lit_0_5;
          severity = get_severity pneumonia_probability
      in \<lparr>prediction = (if is_pneumonia then ''Pneumonia'' else ''Normal''),
          confidence = pneumonia_probability,
          pneumoniaProbability = pneumonia_probability,
          details =
            \<lparr>lungOpacity =
               (if is_pneumonia then ''Increased'' else ''Normal'') @
               '' opacity detected in lung fields ('' @
               format_percent env pneumonia_probability @ ''% confidence)'',
             infiltrates =
               (if is_pneumonia then ''Likely presence of infiltrates''
                else ''No significant infiltrates detected''),
             consolidation =
               (if is_pneumonia then ''Potential areas of consolidation observed''
                else ''No consolidation observed''),
             severity = severity\<rparr>,
          recommendations = get_recommendations pneumonia_probability severity\<rparr>)"

text \<open>The second \<^verbatim>\<open>try\<close> block of \<^verbatim>\<open>predict\<close>.\<close>

definition predict_body ::
  "('img, 't) env \<Rightarrow> 't server \<Rightarrow> string \<Rightarrow> prediction_result outcome \<times> 't server" where
  "predict_body env s image_data =
     (let s1 = emit Call_preprocess_image s in
      case preprocess_image env image_data of
        Inl e \<Rightarrow> (Raise (Exception e), s1)
      | Inr processed_image \<Rightarrow>
          (case model s1 of
             None \<Rightarrow>
               (Raise (Exception (PyError ''AttributeError''
                  ([CHR 0x27] @ ''NoneType'' @ [CHR 0x27] @ '' object has no attribute '' @
                   [CHR 0x27] @ ''predict'' @ [CHR 0x27]))), s1)
           | Some m \<Rightarrow>
               (let s2 = emit Call_model_predict s1 in
                case m processed_image of
                  Inl e \<Rightarrow> (Raise (Exception e), s2)
                | Inr prediction_array \<Rightarrow>
                    (case py_index prediction_array 0 of
                       Inl e \<Rightarrow> (Raise (Exception e), s2)
                     | Inr row \<Rightarrow>
                         (case py_index row 0 of
                            Inl e \<Rightarrow> (Raise (Exception e), s2)
                          | Inr pneumonia_probability \<Rightarrow>
                              (Return (build_result env pneumonia_probability), s2))))))"

text \<open>The handler of \<^verbatim>\<open>POST /predict\<close>; \<^verbatim>\<open>not model\<close> holds when the global is \<^verbatim>\<open>None\<close>.\<close>

definition predict ::
  "('img, 't) env \<Rightarrow> 't server \<Rightarrow> string \<Rightarrow> prediction_result outcome \<times> 't server" where
  "predict env s image_data =
     (case (if model s = None
            then try_except_Exception (load_model env s)
                   (\<lambda>e s1. (Raise (HTTPException 500 (''Model not loaded: '' @ err_str e)), s1))
            else (Return (), s)) of
        (Raise r, s1) \<Rightarrow> (Raise r, s1)
      | (Return u, s1) \<Rightarrow>
          try_except_Exception (predict_body env s1 image_data)
            (\<lambda>e s2. (Raise (HTTPException 500 (err_str e)), s2)))"

record health =
  status :: string
  model_loaded :: bool

definition health_check :: "'t server \<Rightarrow> health" where
  "health_check s = \<lparr>status = ''healthy'', model_loaded = (model s \<noteq> None)\<rparr>"

text \<open>
  The service after start-up and a sequence of /predict requests, each with the
  environment (files, libraries) it meets.
\<close>

fun serve :: "'t server \<Rightarrow> (('img, 't) env \<times> string) list \<Rightarrow> 't server" where
  "serve s [] = s"
| "serve s ((env, image_data) # rest) = serve (snd (predict env s image_data)) rest"

text \<open>The events a step from \<open>s\<close> to \<open>s'\<close> has added.\<close>

definition new_events :: "'t server \<Rightarrow> 't server \<Rightarrow> event list" where
  "new_events s s' = drop (length (events s)) (events s')"

text \<open>Whether \<^verbatim>\<open>load_model\<close> would succeed in an environment.\<close>

definition load_succeeds :: "('img, 't) env \<Rightarrow> bool" where
  "load_succeeds env =
     (path_exists env model_path \<and>
      (case keras_load_model env model_path of Inl e \<Rightarrow> False | Inr m \<Rightarrow> True))"

section \<open>The classifier and the generator as calls in the service\<close>

text \<open>
  A Python function can read and assign the globals of its module, print, and raise. So
  a call of a function of \<^verbatim>\<open>main.py\<close> takes the state of the service and gives an outcome
  and a state, as \<open>load_model\<close> and \<open>predict\<close> do. These are \<^verbatim>\<open>get_severity\<close> and
  \<^verbatim>\<open>get_recommendations\<close> in that form, statement by statement.
\<close>

definition get_severity_call ::
  "'t server \<Rightarrow> pyfloat \<Rightarrow> string option outcome \<times> 't server" where
  "get_severity_call s conf =
     (if float_gt conf lit_0_9 then (Return (Some ''Severe''), s)
      else if float_gt conf lit_0_8 then (Return (Some ''Moderate''), s)
      else if float_gt conf lit_0_5 then (Return (Some ''Mild''), s)
      else (Return None, s))"

definition get_recommendations_call ::
  "'t server \<Rightarrow> pyfloat \<Rightarrow> string option \<Rightarrow> string list outcome \<times> 't server" where
  "get_recommendations_call s conf sev =
     (if float_gt conf lit_0_5 then
        (let base = [''Consult with a healthcare provider'',
                     ''Monitor breathing and oxygen levels'',
                     ''Rest and maintain good hydration'']
         in if sev = Some ''Severe'' then
              (Return ([warning_sign @ '' SEEK IMMEDIATE EMERGENCY CARE'',
                        ''High risk - immediate medical attention required'',
                        ''Prepare for possible hospitalization'',
                        ''Monitor oxygen saturation closely''] @ base), s)
            else if sev = Some ''Moderate'' then
              (Return ([''Seek urgent medical attention'',
                        ''Begin prescribed treatments promptly'',
                        ''Schedule follow-up chest X-rays''] @ base), s)
            else
              (Return ([''Schedule medical evaluation''] @ base @
                       [''Follow up with chest X-rays as advised'',
                        ''Complete prescribed medications if given'']), s))
      else
        (Return [''Continue normal health monitoring'',
                 ''Maintain good respiratory hygiene'',
                 ''Stay current with vaccinations'',
                 ''Follow up if new symptoms develop''], s))"

text \<open>
  The two calls as \<^verbatim>\<open>predict\<close> makes them: the severity of the probability, then the
  recommendations for the probability and that severity.
\<close>

definition labels_call ::
  "'t server \<Rightarrow> pyfloat \<Rightarrow> (string option \<times> string list) outcome \<times> 't server" where
  "labels_call s p =
     (case get_severity_call s p of
        (Raise x, s1) \<Rightarrow> (Raise x, s1)
      | (Return sev, s1) \<Rightarrow>
          (case get_recommendations_call s1 p sev of
             (Raise x, s2) \<Rightarrow> (Raise x, s2)
           | (Return recs, s2) \<Rightarrow> (Return (sev, recs), s2)))"

section \<open>What the image normalizer relies on\<close>

text \<open>
  The documented behaviour of the PIL and numpy calls of \<^verbatim>\<open>preprocess_image\<close>, stated
  with observers of an image (its size as width and height) and of an array (its shape
  and its entries):
  \<^item> \<^verbatim>\<open>convert(m)\<close> returns an image of mode \<open>m\<close>;
  \<^item> \<^verbatim>\<open>resize(sz)\<close> returns an image of size \<open>sz\<close> and the same mode;
  \<^item> for an image of mode RGB, \<^verbatim>\<open>np.array(img) / r\<close> has shape height, width, 3, and
    each entry is the quotient of an 8-bit channel value by \<open>r\<close>, rounded to a double;
  \<^item> \<^verbatim>\<open>np.expand_dims(a, axis=k)\<close> puts a dimension of size 1 at position \<open>k\<close> and
    keeps the entries;
  \<^item> rounding to a double is monotone and leaves 0 and 1 as they are.
\<close>

definition pil_numpy_contract ::
  "('img, 't) env \<Rightarrow> ('img \<Rightarrow> nat \<times> nat) \<Rightarrow> ('t \<Rightarrow> nat list) \<Rightarrow> ('t \<Rightarrow> pyfloat list) \<Rightarrow>
   (real \<Rightarrow> real) \<Rightarrow> bool" where
  "pil_numpy_contract env img_size arr_shape arr_values rnd \<longleftrightarrow>
     (\<forall>img m img'. image_convert env img m = Inr img' \<longrightarrow> image_mode env img' = m) \<and>
     (\<forall>img sz img'. image_resize env img sz = Inr img' \<longrightarrow>
        img_size img' = sz \<and> image_mode env img' = image_mode env img) \<and>
     (\<forall>img r a. image_mode env img = ''RGB'' \<and> array_divide env img (Finite r) = Inr a \<longrightarrow>
        arr_shape a = [snd (img_size img), fst (img_size img), 3] \<and>
        (\<forall>x \<in> set (arr_values a). \<exists>v::nat. v \<le> 255 \<and> x = Finite (rnd (real v / r)))) \<and>
     (\<forall>a k a'. expand_dims env a k = Inr a' \<longrightarrow>
        arr_shape a' = take k (arr_shape a) @ [1] @ drop k (arr_shape a) \<and>
        arr_values a' = arr_values a) \<and>
     mono rnd \<and> rnd 0 = 0 \<and> rnd 1 = 1"

section \<open>The command-line prediction tool\<close>

text \<open>
  \<^verbatim>\<open>predict.py\<close> is a script: one \<^verbatim>\<open>try\<close> block and its handler. The calls into
  the file system, pickle, json, numpy and the unpickled model are parameters.
  \<open>array_reshape env d\<close> is \<^verbatim>\<open>np.array(d).reshape(1, -1)\<close>.
\<close>

record ('f, 'm, 'j, 'a) cli_env =
  open_file :: "string \<Rightarrow> string \<Rightarrow> pyerror + 'f"
  pickle_load :: "'f \<Rightarrow> pyerror + 'm"
  json_load :: "'f \<Rightarrow> pyerror + 'j"
  array_reshape :: "'j \<Rightarrow> pyerror + 'a"
  predict_proba :: "'m \<Rightarrow> 'a \<Rightarrow> pyerror + pyfloat list list"

text \<open>
  A line on standard output: \<^verbatim>\<open>json.dumps\<close> of the result dictionary (keys
  \<^verbatim>\<open>probability\<close> and \<^verbatim>\<open>prediction\<close>) or of the error dictionary (key \<^verbatim>\<open>error\<close>).
\<close>

datatype json_line = Result_json pyfloat bool | Error_json string

datatype cli_call =
  Call_open string | Call_pickle_load | Call_json_load | Call_reshape | Call_predict_proba

record cli_state =
  stdout :: "json_line list"
  cli_calls :: "cli_call list"

definition called :: "cli_call \<Rightarrow> cli_state \<Rightarrow> cli_state" where
  "called c st = st\<lparr>cli_calls := cli_calls st @ [c]\<rparr>"

definition print_line :: "json_line \<Rightarrow> cli_state \<Rightarrow> cli_state" where
  "print_line l st = st\<lparr>stdout := stdout st @ [l]\<rparr>"

definition cli_try_body ::
  "('f, 'm, 'j, 'a) cli_env \<Rightarrow> cli_state \<Rightarrow> unit outcome \<times> cli_state" where
  "cli_try_body env st0 =
     (let st1 = called (Call_open ''ensemble_model.pkl'') st0 in
      case open_file env ''ensemble_model.pkl'' ''rb'' of
        Inl e \<Rightarrow> (Raise (Exception e), st1)
      | Inr f \<Rightarrow>
     (let st2 = called Call_pickle_load st1 in
      case pickle_load env f of
        Inl e \<Rightarrow> (Raise (Exception e), st2)
      | Inr mdl \<Rightarrow>
     (let st3 = called (Call_open ''temp_input.json'') st2 in
      case open_file env ''temp_input.json'' ''r'' of
        Inl e \<Rightarrow> (Raise (Exception e), st3)
      | Inr g \<Rightarrow>
     (let st4 = called Call_json_load st3 in
      case json_load env g of
        Inl e \<Rightarrow> (Raise (Exception e), st4)
      | Inr input_data \<Rightarrow>
     (let st5 = called Call_reshape st4 in
      case array_reshape env input_data of
        Inl e \<Rightarrow> (Raise (Exception e), st5)
      | Inr input_array \<Rightarrow>
     (let st6 = called Call_predict_proba st5 in
      case predict_proba env mdl input_array of
        Inl e \<Rightarrow> (Raise (Exception e), st6)
      | Inr proba \<Rightarrow>
     (case py_index proba 0 of
        Inl e \<Rightarrow> (Raise (Exception e), st6)
      | Inr row \<Rightarrow>
     (case py_index row 1 of
        Inl e \<Rightarrow> (Raise (Exception e), st6)
      | Inr probability \<Rightarrow>
          (let prediction = (if float_gt probability lit_0_5 then 1 else 0 :: int);
               result = Result_json probability (prediction \<noteq> 0)
           in (Raise (SystemExit 0), print_line result st6))))))))))"

definition cli_main :: "('f, 'm, 'j, 'a) cli_env \<Rightarrow> unit outcome \<times> cli_state" where
  "cli_main env =
     try_except_Exception (cli_try_body env \<lparr>stdout = [], cli_calls = []\<rparr>)
       (\<lambda>e st. (Raise (SystemExit 1), print_line (Error_json (err_str e)) st))"

text \<open>
  The exit code of the interpreter: the argument of \<^verbatim>\<open>sys.exit\<close>, 0 when the script
  runs to its end, 1 when another exception reaches the top level.
\<close>

fun exit_code :: "'a outcome \<Rightarrow> int" where
  "exit_code (Return v) = 0"
| "exit_code (Raise (SystemExit n)) = n"
| "exit_code (Raise r) = 1"

text \<open>Whether every step of the script before the \<^verbatim>\<open>print\<close> succeeds, and with what.\<close>

definition cli_steps :: "('f, 'm, 'j, 'a) cli_env \<Rightarrow> pyerror + pyfloat" where
  "cli_steps env =
     (case open_file env ''ensemble_model.pkl'' ''rb'' of Inl e \<Rightarrow> Inl e | Inr f \<Rightarrow>
      case pickle_load env f of Inl e \<Rightarrow> Inl e | Inr mdl \<Rightarrow>
      case open_file env ''temp_input.json'' ''r'' of Inl e \<Rightarrow> Inl e | Inr g \<Rightarrow>
      case json_load env g of Inl e \<Rightarrow> Inl e | Inr input_data \<Rightarrow>
      case array_reshape env input_data of Inl e \<Rightarrow> Inl e | Inr input_array \<Rightarrow>
      case predict_proba env mdl input_array of Inl e \<Rightarrow> Inl e | Inr proba \<Rightarrow>
      case py_index proba 0 of Inl e \<Rightarrow> Inl e | Inr row \<Rightarrow> py_index row 1)"

section \<open>The tier order of the specification\<close>

text \<open>The order \<open>None < Mild < Moderate < Severe\<close> on severity labels, as a rank.\<close>

definition tier_rank :: "string option \<Rightarrow> nat" where
  "tier_rank label =
     (if label = Some ''Severe'' then 3
      else if label = Some ''Moderate'' then 2
      else if label = Some ''Mild'' then 1
      else 0)"

section \<open>Example environments\<close>

text \<open>
  Concrete environments on which the theorems below are instantiated: images and
  tensors are numbers, every library call succeeds, and the loaded model answers 0.95.
\<close>

definition example_model :: "nat keras_model" where
  "example_model t = Inr [[lit_0_95]]"

definition example_env :: "(nat, nat) env" where
  "example_env =
     \<lparr>path_exists = (\<lambda>p. True),
      keras_load_model = (\<lambda>p. Inr example_model),
      b64decode = (\<lambda>d. Inr d),
      image_open = (\<lambda>b. Inr (length b)),
      image_mode = (\<lambda>i. ''L''),
      image_convert = (\<lambda>i m. Inr i),
      image_resize = (\<lambda>i sz. Inr (fst sz * snd sz)),
      array_divide = (\<lambda>i d. Inr i),
      expand_dims = (\<lambda>t axis. Inr t),
      format_percent = (\<lambda>p. ''95.0'')\<rparr>"

text \<open>The same without the model file, and with a base64 decoder that rejects its input.\<close>

definition example_env_no_file :: "(nat, nat) env" where
  "example_env_no_file = example_env\<lparr>path_exists := (\<lambda>p. False)\<rparr>"

definition example_env_bad_image :: "(nat, nat) env" where
  "example_env_bad_image =
     example_env\<lparr>b64decode := (\<lambda>d. Inl (PyError ''binascii.Error'' ''Incorrect padding''))\<rparr>"

definition example_env_bad_model :: "(nat, nat) env" where
  "example_env_bad_model =
     example_env\<lparr>keras_load_model :=
       (\<lambda>p. Inr (\<lambda>t. Inl (PyError ''ValueError'' ''incompatible input shape'')))\<rparr>"

definition example_image :: string where
  "example_image = ''data:image/png;base64,iVBORw0KGgo=''"

text \<open>The service after one successful request.\<close>

definition example_loaded_server :: "nat server" where
  "example_loaded_server = snd (predict example_env initial_server example_image)"

definition example_cli_env :: "(nat, nat, nat, nat) cli_env" where
  "example_cli_env =
     \<lparr>open_file = (\<lambda>name mode. Inr (length name)),
      pickle_load = (\<lambda>f. Inr f),
      json_load = (\<lambda>f. Inr f),
      array_reshape = (\<lambda>j. Inr j),
      predict_proba = (\<lambda>m a. Inr [[lit_0_3, lit_0_6]])\<rparr>"

definition example_cli_env_no_input :: "(nat, nat, nat, nat) cli_env" where
  "example_cli_env_no_input =
     example_cli_env\<lparr>open_file :=
       (\<lambda>name mode. if name = ''temp_input.json''
                     then Inl (PyError ''FileNotFoundError'' ''No such file or directory'')
                     else Inr (length name))\<rparr>"

text \<open>
  An environment with images that carry a mode, a size and 8-bit channel values, and
  arrays that carry a shape and entries; the decoder yields a greyscale image of 2 by 1.
\<close>

type_synonym example_img = "string \<times> (nat \<times> nat) \<times> 8 word list"

type_synonym example_arr = "nat list \<times> pyfloat list"

definition example_img_size :: "example_img \<Rightarrow> nat \<times> nat" where
  "example_img_size img = fst (snd img)"

definition example_pil_env :: "(example_img, example_arr) env" where
  "example_pil_env =
     \<lparr>path_exists = (\<lambda>p. False),
      keras_load_model = (\<lambda>p. Inl (PyError ''OSError'' ''no model'')),
      b64decode = (\<lambda>d. Inr d),
      image_open = (\<lambda>b. Inr (''L'', (2, 1), [0, 128, 255])),
      image_mode = (\<lambda>img. fst img),
      image_convert = (\<lambda>img m. Inr (m, snd img)),
      image_resize = (\<lambda>img sz. Inr (fst img, sz, snd (snd img))),
      array_divide =
        (\<lambda>img d. case d of
           Finite r \<Rightarrow>
             Inr ([snd (fst (snd img)), fst (fst (snd img)), 3],
                  map (\<lambda>v. Finite (real (unat v) / r)) (snd (snd img)))
         | other \<Rightarrow> Inl (PyError ''TypeError'' ''unsupported divisor'')),
      expand_dims = (\<lambda>a k. Inr (take k (fst a) @ [1] @ drop k (fst a), snd a)),
      format_percent = (\<lambda>p. ''0.0'')\<rparr>"

section \<open>Properties of the literals and comparisons\<close>

lemma lit_0_9_rounding: "lit_0_9 = Finite r \<Longrightarrow> \<bar>r - 9 / 10\<bar> \<le> 1 / 2 ^ 54"
  by (auto simp: lit_0_9_def)

lemma lit_0_8_rounding: "lit_0_8 = Finite r \<Longrightarrow> \<bar>r - 8 / 10\<bar> \<le> 1 / 2 ^ 53"
  by (auto simp: lit_0_8_def)

lemma float_gt_lit_0_9_imp_0_8: "float_gt p lit_0_9 \<Longrightarrow> float_gt p lit_0_8"
  by (cases p) (auto simp: lit_0_9_def lit_0_8_def)

lemma float_gt_lit_0_8_imp_0_5: "float_gt p lit_0_8 \<Longrightarrow> float_gt p lit_0_5"
  by (cases p) (auto simp: lit_0_8_def lit_0_5_def)

lemma float_le_not_gt: "float_le p q \<Longrightarrow> \<not> float_gt p q"
  by (cases p; cases q) auto

section \<open>Severity thresholds\<close>

text \<open>
  Claim C1. For every probability \<open>p\<close> (a NaN and the infinities included) the severity
  classifier returns "Severe" when \<open>p > 0.9\<close>; otherwise "Moderate" when \<open>p > 0.8\<close>;
  otherwise "Mild" when \<open>p > 0.5\<close>; otherwise None. The bounds are exclusive, and the
  first test that holds decides: for \<open>p > 0.9\<close> the result is "Severe" although the two
  later tests hold as well.
\<close>

theorem get_severity_thresholds:
  "(float_gt p lit_0_9 \<longrightarrow> get_severity p = Some ''Severe'') \<and>
   (\<not> float_gt p lit_0_9 \<and> float_gt p lit_0_8 \<longrightarrow> get_severity p = Some ''Moderate'') \<and>
   (\<not> float_gt p lit_0_8 \<and> float_gt p lit_0_5 \<longrightarrow> get_severity p = Some ''Mild'') \<and>
   (\<not> float_gt p lit_0_5 \<longrightarrow> get_severity p = None)"
  using float_gt_lit_0_9_imp_0_8 [of p] float_gt_lit_0_8_imp_0_5 [of p]
  by (auto simp: get_severity_def)

theorem get_severity_thresholds_witness:
  "float_gt lit_0_95 lit_0_9 \<and> get_severity lit_0_95 = Some ''Severe'' \<and>
   \<not> float_gt lit_0_9 lit_0_9 \<and> float_gt lit_0_9 lit_0_8 \<and>
   get_severity lit_0_9 = Some ''Moderate'' \<and>
   \<not> float_gt lit_0_8 lit_0_8 \<and> float_gt lit_0_8 lit_0_5 \<and>
   get_severity lit_0_8 = Some ''Mild'' \<and>
   \<not> float_gt lit_0_5 lit_0_5 \<and> get_severity lit_0_5 = None \<and>
   \<not> float_gt NaN lit_0_5 \<and> get_severity NaN = None"
proof -
  have a: "float_gt lit_0_95 lit_0_9"
    by (simp add: lit_0_95_def lit_0_9_def)
  have b: "\<not> float_gt lit_0_9 lit_0_9 \<and> float_gt lit_0_9 lit_0_8"
    by (simp add: lit_0_9_def lit_0_8_def)
  have c: "\<not> float_gt lit_0_8 lit_0_8 \<and> float_gt lit_0_8 lit_0_5"
    by (simp add: lit_0_8_def lit_0_5_def)
  have d: "\<not> float_gt lit_0_5 lit_0_5"
    by (simp add: lit_0_5_def)
  have e: "\<not> float_gt NaN lit_0_5"
    by simp
  show ?thesis
    using a b c d e get_severity_thresholds [of lit_0_95] get_severity_thresholds [of lit_0_9]
      get_severity_thresholds [of lit_0_8] get_severity_thresholds [of lit_0_5]
      get_severity_thresholds [of NaN]
    by simp
qed

section \<open>Facts about tiers and lists\<close>

lemma tier_rank_values:
  "tier_rank None = 0" "tier_rank (Some ''Mild'') = 1"
  "tier_rank (Some ''Moderate'') = 2" "tier_rank (Some ''Severe'') = 3"
  by (simp_all add: tier_rank_def)

lemma float_le_gt_trans: "float_le p q \<Longrightarrow> float_gt p t \<Longrightarrow> float_gt q t"
  by (cases p; cases q; cases t) auto

lemma get_severity_range:
  "get_severity p \<in> {None, Some ''Mild'', Some ''Moderate'', Some ''Severe''}"
  by (simp add: get_severity_def)

lemma get_severity_mono:
  assumes "float_le p1 p2"
  shows "tier_rank (get_severity p1) \<le> tier_rank (get_severity p2)"
proof -
  have "float_gt p1 t \<Longrightarrow> float_gt p2 t" for t
    using assms by (rule float_le_gt_trans)
  then show ?thesis
    by (auto simp: get_severity_def tier_rank_values)
qed

lemma get_severity_samples:
  "get_severity lit_0_95 = Some ''Severe''"
  "get_severity lit_0_85 = Some ''Moderate''"
  "get_severity lit_0_6 = Some ''Mild''"
  "get_severity lit_0_3 = None"
  by (simp_all add: get_severity_def lit_0_95_def lit_0_85_def lit_0_6_def lit_0_3_def
      lit_0_9_def lit_0_8_def lit_0_5_def)

section \<open>Monotonicity and exhaustiveness of the severity tiers\<close>

text \<open>
  Claim C8. The severity function is monotonic: for \<open>p1 \<le> p2\<close> the tier of \<open>p1\<close> is at
  most the tier of \<open>p2\<close> in the order None < Mild < Moderate < Severe. It is exhaustive:
  every \<open>p\<close> in \<open>[0,1]\<close> has exactly one of the four tiers. And the four sample
  probabilities 0.95, 0.85, 0.6 and 0.3 are Severe, Moderate, Mild and None.
\<close>

theorem get_severity_monotone_exhaustive:
  "(float_le p1 p2 \<longrightarrow> tier_rank (get_severity p1) \<le> tier_rank (get_severity p2)) \<and>
   (in_unit_interval p \<longrightarrow>
      (\<exists>!t. t \<in> {None, Some ''Mild'', Some ''Moderate'', Some ''Severe''} \<and> get_severity p = t)) \<and>
   tier_rank None < tier_rank (Some ''Mild'') \<and>
   tier_rank (Some ''Mild'') < tier_rank (Some ''Moderate'') \<and>
   tier_rank (Some ''Moderate'') < tier_rank (Some ''Severe'') \<and>
   get_severity lit_0_95 = Some ''Severe'' \<and>
   get_severity lit_0_85 = Some ''Moderate'' \<and>
   get_severity lit_0_6 = Some ''Mild'' \<and>
   get_severity lit_0_3 = None"
proof -
  have "\<exists>!t. t \<in> {None, Some ''Mild'', Some ''Moderate'', Some ''Severe''} \<and> get_severity p = t"
    using get_severity_range [of p] by (intro ex1I [where a = "get_severity p"]) simp_all
  then show ?thesis
    using get_severity_mono [of p1 p2] get_severity_samples
    by (simp add: tier_rank_values)
qed

theorem get_severity_monotone_exhaustive_witness:
  "float_le lit_0_6 lit_0_85 \<and>
   tier_rank (get_severity lit_0_6) \<le> tier_rank (get_severity lit_0_85) \<and>
   in_unit_interval lit_0_85 \<and>
   (\<exists>!t. t \<in> {None, Some ''Mild'', Some ''Moderate'', Some ''Severe''} \<and>
         get_severity lit_0_85 = t)"
proof -
  have a: "float_le lit_0_6 lit_0_85"
    by (simp add: lit_0_6_def lit_0_85_def)
  have b: "in_unit_interval lit_0_85"
    by (simp add: lit_0_85_def)
  note t = get_severity_monotone_exhaustive [of lit_0_6 lit_0_85 lit_0_85]
  have m: "tier_rank (get_severity lit_0_6) \<le> tier_rank (get_severity lit_0_85)"
    by (rule t [THEN conjunct1, THEN mp, OF a])
  have u: "\<exists>!t. t \<in> {None, Some ''Mild'', Some ''Moderate'', Some ''Severe''} \<and>
         get_severity lit_0_85 = t"
    by (rule t [THEN conjunct2, THEN conjunct1, THEN mp, OF b])
  show ?thesis
    using a b m u by (intro conjI)
qed

lemma list_lengths:
  "length base_recommendations = 3" "length severe_recommendations = 7"
  "length moderate_recommendations = 6" "length mild_recommendations = 6"
  "length normal_recommendations = 4"
  by (simp_all add: base_recommendations_def severe_recommendations_def
      moderate_recommendations_def mild_recommendations_def normal_recommendations_def)

lemma get_severity_Some_gt: "get_severity p = Some l \<Longrightarrow> float_gt p lit_0_5"
  using float_gt_lit_0_9_imp_0_8 [of p] float_gt_lit_0_8_imp_0_5 [of p]
  by (auto simp: get_severity_def split: if_splits)

section \<open>Recommendations per tier\<close>

text \<open>
  Claim C3. With the severity derived from the probability \<open>p\<close>: for \<open>p \<le> 0.5\<close> the
  generator returns the fixed normal-monitoring list of 4 items; for "Severe" the 4
  urgent-care strings followed by the base list of 3 (7 items, the emergency-care string
  first); for "Moderate" 3 urgent strings and then the base list (6 items); for "Mild"
  the schedule-evaluation string, the base list and 2 follow-up strings (6 items). All
  lists are constants.
\<close>

theorem get_recommendations_by_tier:
  "(float_le p lit_0_5 \<longrightarrow>
      get_recommendations p (get_severity p) = normal_recommendations) \<and>
   (get_severity p = Some ''Severe'' \<longrightarrow>
      get_recommendations p (get_severity p) = severe_recommendations) \<and>
   (get_severity p = Some ''Moderate'' \<longrightarrow>
      get_recommendations p (get_severity p) = moderate_recommendations) \<and>
   (get_severity p = Some ''Mild'' \<longrightarrow>
      get_recommendations p (get_severity p) = mild_recommendations) \<and>
   length normal_recommendations = 4 \<and>
   length base_recommendations = 3 \<and>
   length severe_recommendations = 7 \<and>
   take 4 severe_recommendations =
     [warning_sign @ '' SEEK IMMEDIATE EMERGENCY CARE'',
      ''High risk - immediate medical attention required'',
      ''Prepare for possible hospitalization'',
      ''Monitor oxygen saturation closely''] \<and>
   drop 4 severe_recommendations = base_recommendations \<and>
   length moderate_recommendations = 6 \<and>
   take 3 moderate_recommendations =
     [''Seek urgent medical attention'',
      ''Begin prescribed treatments promptly'',
      ''Schedule follow-up chest X-rays''] \<and>
   drop 3 moderate_recommendations = base_recommendations \<and>
   length mild_recommendations = 6 \<and>
   take 1 mild_recommendations = [''Schedule medical evaluation''] \<and>
   take 3 (drop 1 mild_recommendations) = base_recommendations \<and>
   drop 4 mild_recommendations =
     [''Follow up with chest X-rays as advised'',
      ''Complete prescribed medications if given'']"
proof -
  have n: "float_le p lit_0_5 \<longrightarrow> get_recommendations p (get_severity p) = normal_recommendations"
    using float_le_not_gt [of p lit_0_5] by (simp add: get_recommendations_def)
  have s: "get_severity p = Some l \<Longrightarrow>
      get_recommendations p (Some l) =
        (if l = ''Severe'' then severe_recommendations
         else if l = ''Moderate'' then moderate_recommendations
         else mild_recommendations)" for l
    using get_severity_Some_gt [of p l] by (simp add: get_recommendations_def)
  have lists:
    "take 4 severe_recommendations =
       [warning_sign @ '' SEEK IMMEDIATE EMERGENCY CARE'',
        ''High risk - immediate medical attention required'',
        ''Prepare for possible hospitalization'',
        ''Monitor oxygen saturation closely'']"
    "drop 4 severe_recommendations = base_recommendations"
    "take 3 moderate_recommendations =
       [''Seek urgent medical attention'',
        ''Begin prescribed treatments promptly'',
        ''Schedule follow-up chest X-rays'']"
    "drop 3 moderate_recommendations = base_recommendations"
    "take 1 mild_recommendations = [''Schedule medical evaluation'']"
    "take 3 (drop 1 mild_recommendations) = base_recommendations"
    "drop 4 mild_recommendations =
       [''Follow up with chest X-rays as advised'',
        ''Complete prescribed medications if given'']"
    by (simp_all add: severe_recommendations_def moderate_recommendations_def
        mild_recommendations_def base_recommendations_def)
  have heads:
    "get_severity p = Some ''Severe'' \<longrightarrow>
       get_recommendations p (get_severity p) = severe_recommendations"
    "get_severity p = Some ''Moderate'' \<longrightarrow>
       get_recommendations p (get_severity p) = moderate_recommendations"
    "get_severity p = Some ''Mild'' \<longrightarrow>
       get_recommendations p (get_severity p) = mild_recommendations"
    using s [of "''Severe''"] s [of "''Moderate''"] s [of "''Mild''"] by simp_all
  show ?thesis
    using n heads lists list_lengths by (intro conjI)
qed

theorem get_recommendations_by_tier_witness:
  "float_le lit_0_3 lit_0_5 \<and>
   get_recommendations lit_0_3 (get_severity lit_0_3) = normal_recommendations \<and>
   get_severity lit_0_95 = Some ''Severe'' \<and>
   get_recommendations lit_0_95 (get_severity lit_0_95) = severe_recommendations \<and>
   hd (get_recommendations lit_0_95 (get_severity lit_0_95)) =
     warning_sign @ '' SEEK IMMEDIATE EMERGENCY CARE'' \<and>
   get_severity lit_0_85 = Some ''Moderate'' \<and>
   get_recommendations lit_0_85 (get_severity lit_0_85) = moderate_recommendations \<and>
   get_severity lit_0_6 = Some ''Mild'' \<and>
   get_recommendations lit_0_6 (get_severity lit_0_6) = mild_recommendations"
proof -
  have a: "float_le lit_0_3 lit_0_5"
    by (simp add: lit_0_3_def lit_0_5_def)
  have h: "hd severe_recommendations = warning_sign @ '' SEEK IMMEDIATE EMERGENCY CARE''"
    by (simp add: severe_recommendations_def)
  show ?thesis
    using a h get_severity_samples
      get_recommendations_by_tier [of lit_0_3] get_recommendations_by_tier [of lit_0_95]
      get_recommendations_by_tier [of lit_0_85] get_recommendations_by_tier [of lit_0_6]
    by simp
qed

section \<open>The generator tests the confidence before the severity\<close>

text \<open>
  Claim C10. For every severity argument \<open>s\<close>, "Severe" and "Moderate" included, a
  confidence \<open>\<le> 0.5\<close> gives the normal-monitoring list of 4 items. A confidence
  \<open>> 0.5\<close> with \<open>s\<close> neither "Severe" nor "Moderate" (so also \<open>s = None\<close>) gives the
  Mild list of 6 items. The result is always one of the four whole lists: tiers are never
  mixed.
\<close>

theorem get_recommendations_confidence_first:
  "(float_le conf lit_0_5 \<longrightarrow>
      get_recommendations conf s = normal_recommendations) \<and>
   (float_gt conf lit_0_5 \<and> s \<noteq> Some ''Severe'' \<and> s \<noteq> Some ''Moderate'' \<longrightarrow>
      get_recommendations conf s = mild_recommendations) \<and>
   (float_gt conf lit_0_5 \<longrightarrow>
      get_recommendations conf None = mild_recommendations) \<and>
   length normal_recommendations = 4 \<and>
   length mild_recommendations = 6 \<and>
   get_recommendations conf s \<in>
     {normal_recommendations, severe_recommendations, moderate_recommendations,
      mild_recommendations}"
  using float_le_not_gt [of conf lit_0_5]
  by (simp add: get_recommendations_def list_lengths)

theorem get_recommendations_confidence_first_witness:
  "float_le lit_0_3 lit_0_5 \<and>
   get_recommendations lit_0_3 (Some ''Severe'') = normal_recommendations \<and>
   get_recommendations lit_0_3 (Some ''Moderate'') = normal_recommendations \<and>
   float_gt lit_0_95 lit_0_5 \<and>
   get_recommendations lit_0_95 None = mild_recommendations \<and>
   get_recommendations lit_0_95 (Some ''Mild'') = mild_recommendations \<and>
   get_recommendations lit_0_95 (Some ''severe'') = mild_recommendations"
proof -
  have a: "float_le lit_0_3 lit_0_5"
    by (simp add: lit_0_3_def lit_0_5_def)
  have b: "float_gt lit_0_95 lit_0_5"
    by (simp add: lit_0_95_def lit_0_5_def)
  show ?thesis
    using a b
      get_recommendations_confidence_first [of lit_0_3 "Some ''Severe''"]
      get_recommendations_confidence_first [of lit_0_3 "Some ''Moderate''"]
      get_recommendations_confidence_first [of lit_0_95 None]
      get_recommendations_confidence_first [of lit_0_95 "Some ''Mild''"]
      get_recommendations_confidence_first [of lit_0_95 "Some ''severe''"]
    by simp
qed

section \<open>Facts about the /predict handler\<close>

lemma build_result_fields:
  "confidence (build_result env p) = p"
  "pneumoniaProbability (build_result env p) = p"
  "prediction (build_result env p) = (if float_gt p lit_0_5 then ''Pneumonia'' else ''Normal'')"
  "severity (details (build_result env p)) = get_severity p"
  "recommendations (build_result env p) = get_recommendations p (get_severity p)"
  "infiltrates (details (build_result env p)) =
     (if float_gt p lit_0_5 then ''Likely presence of infiltrates''
      else ''No significant infiltrates detected'')"
  "consolidation (details (build_result env p)) =
     (if float_gt p lit_0_5 then ''Potential areas of consolidation observed''
      else ''No consolidation observed'')"
  by (simp_all add: build_result_def Let_def)

lemma load_model_cases:
  "load_model env s = (out, s') \<Longrightarrow>
     (load_succeeds env \<longrightarrow>
        out = Return () \<and> model s' \<noteq> None \<and>
        events s' = events s @
          [Call_load_model, Print (''Model loaded successfully from '' @ model_path)]) \<and>
     (\<not> load_succeeds env \<longrightarrow>
        (\<exists>e. out = Raise (Exception e)) \<and> model s' = model s \<and>
        events s' = events s @ [Call_load_model])"
  by (auto simp: load_model_def load_succeeds_def emit_def Let_def
      split: if_splits sum.splits)

lemma predict_body_cases:
  "predict_body env s d = (out, s') \<Longrightarrow>
     model s' = model s \<and>
     (events s' = events s @ [Call_preprocess_image] \<or>
      events s' = events s @ [Call_preprocess_image, Call_model_predict]) \<and>
     ((\<exists>p. out = Return (build_result env p) \<and> model s \<noteq> None) \<or>
      (\<exists>e. out = Raise (Exception e)))"
  by (auto simp: predict_body_def emit_def Let_def split: sum.splits option.splits)

lemma predict_body_preprocess_error:
  "preprocess_image env d = Inl e \<Longrightarrow> fst (predict_body env s d) = Raise (Exception e)"
  by (simp add: predict_body_def Let_def)

lemma predict_body_model_error:
  "preprocess_image env d = Inr t \<Longrightarrow> model s = Some m \<Longrightarrow> m t = Inl e \<Longrightarrow>
     fst (predict_body env s d) = Raise (Exception e)"
  by (simp add: predict_body_def Let_def emit_def)

text \<open>The handler, case by case.\<close>

lemma predict_unloaded_failure:
  assumes "model s = None" "\<not> load_succeeds env"
  shows "\<exists>e. predict env s d =
           (Raise (HTTPException 500 (''Model not loaded: '' @ err_str e)),
            emit Call_load_model s)"
proof -
  obtain out s1 where l: "load_model env s = (out, s1)"
    by (cases "load_model env s")
  have s1: "s1 = emit Call_load_model s"
    using l assms(2)
    by (auto simp: load_model_def load_succeeds_def Let_def split: if_splits sum.splits)
  from load_model_cases [OF l] assms(2) obtain e where "out = Raise (Exception e)"
    by blast
  with l s1 assms(1) show ?thesis
    by (auto simp: predict_def try_except_Exception_def)
qed

lemma predict_runs_body:
  assumes "model s1 \<noteq> None"
    and "s1 = (if model s = None then snd (load_model env s) else s)"
  shows "predict env s d =
           try_except_Exception (predict_body env s1 d)
             (\<lambda>e s2. (Raise (HTTPException 500 (err_str e)), s2))"
proof (cases "model s = None")
  case False
  with assms show ?thesis by (auto simp: predict_def)
next
  case True
  obtain out t where l: "load_model env s = (out, t)"
    by (cases "load_model env s")
  with assms True have t: "t = s1" "model t \<noteq> None" by simp_all
  have "load_succeeds env"
    using load_model_cases [OF l] t(2) True by auto
  with load_model_cases [OF l] have "out = Return ()" by blast
  with l t True show ?thesis
    by (simp add: predict_def try_except_Exception_def)
qed

lemma try_body_outcome:
  assumes "predict_body env s1 d = (bo, s2)"
  shows "try_except_Exception (predict_body env s1 d)
           (\<lambda>e s2. (Raise (HTTPException 500 (err_str e)), s2)) =
         ((case bo of Raise (Exception e) \<Rightarrow> Raise (HTTPException 500 (err_str e))
                    | other \<Rightarrow> other), s2)"
  using assms by (auto simp: try_except_Exception_def split: outcome.splits raised.splits)


lemma predict_cases:
  assumes "predict env s d = (out, s')"
  obtains (load_failed) e where
      "model s = None" "\<not> load_succeeds env"
      "out = Raise (HTTPException 500 (''Model not loaded: '' @ err_str e))"
      "s' = emit Call_load_model s"
  | (body) s1 bo where
      "model s \<noteq> None \<or> load_succeeds env"
      "s1 = (if model s = None then snd (load_model env s) else s)"
      "model s1 \<noteq> None" "predict_body env s1 d = (bo, s')"
      "out = (case bo of Raise (Exception e) \<Rightarrow> Raise (HTTPException 500 (err_str e))
                       | other \<Rightarrow> other)"
proof (cases "model s = None \<and> \<not> load_succeeds env")
  case True
  with predict_unloaded_failure [of s env d] assms load_failed show ?thesis
    by auto
next
  case False
  define s1 where "s1 = (if model s = None then snd (load_model env s) else s)"
  have m: "model s1 \<noteq> None"
  proof (cases "model s = None")
    case True
    with False have "load_succeeds env" by simp
    with load_model_cases [of env s "fst (load_model env s)" "snd (load_model env s)"] True
    show ?thesis by (simp add: s1_def)
  next
    case False
    then show ?thesis by (auto simp: s1_def)
  qed
  obtain bo s2 where b: "predict_body env s1 d = (bo, s2)"
    by (cases "predict_body env s1 d")
  have "predict env s d =
          ((case bo of Raise (Exception e) \<Rightarrow> Raise (HTTPException 500 (err_str e))
                     | other \<Rightarrow> other), s2)"
    using predict_runs_body [OF m s1_def, of d] try_body_outcome [OF b] by simp
  with assms have "s' = s2"
    and "out = (case bo of Raise (Exception e) \<Rightarrow> Raise (HTTPException 500 (err_str e))
                         | other \<Rightarrow> other)"
    by simp_all
  with b m False s1_def body show ?thesis
    by blast
qed

lemma predict_model_after:
  assumes "predict env s d = (out, s')"
  shows "(model s \<noteq> None \<longrightarrow> model s' = model s) \<and>
         (model s = None \<longrightarrow> (model s' \<noteq> None) = load_succeeds env)"
  using assms
proof (cases rule: predict_cases)
  case (load_failed e)
  then show ?thesis by (simp add: emit_def)
next
  case (body s1 bo)
  from predict_body_cases [OF body(4)] have "model s' = model s1" by simp
  with body(1-3) show ?thesis by auto
qed

lemma predict_outcome:
  assumes "predict env s d = (out, s')"
  shows "(\<exists>p. out = Return (build_result env p) \<and> model s' \<noteq> None) \<or>
         (\<exists>msg. out = Raise (HTTPException 500 msg))"
  using assms
proof (cases rule: predict_cases)
  case (load_failed e)
  then show ?thesis by blast
next
  case (body s1 bo)
  from predict_body_cases [OF body(4)] body(3,5) show ?thesis
    by auto
qed

lemma predict_new_events:
  assumes "predict env s d = (out, s')"
  shows "events s' = events s @ new_events s s' \<and>
         (if model s = None
          then new_events s s' \<in>
                 {[Call_load_model],
                  [Call_load_model, Print (''Model loaded successfully from '' @ model_path),
                   Call_preprocess_image],
                  [Call_load_model, Print (''Model loaded successfully from '' @ model_path),
                   Call_preprocess_image, Call_model_predict]}
          else new_events s s' \<in>
                 {[Call_preprocess_image], [Call_preprocess_image, Call_model_predict]})"
  using assms
proof (cases rule: predict_cases)
  case (load_failed e)
  then show ?thesis by (simp add: emit_def new_events_def)
next
  case (body s1 bo)
  have e1: "events s1 = events s @
      (if model s = None
       then [Call_load_model, Print (''Model loaded successfully from '' @ model_path)]
       else [])"
    using body(1,2) load_model_cases [of env s "fst (load_model env s)" "snd (load_model env s)"]
    by auto
  from predict_body_cases [OF body(4)]
  have "events s' = events s1 @ [Call_preprocess_image] \<or>
        events s' = events s1 @ [Call_preprocess_image, Call_model_predict]"
    by simp
  with e1 show ?thesis
    by (auto simp: new_events_def)
qed

lemma predict_error_messages:
  assumes "predict env s d = (out, s')" "model s' \<noteq> None"
  shows "(preprocess_image env d = Inl e \<longrightarrow> out = Raise (HTTPException 500 (err_str e))) \<and>
         (preprocess_image env d = Inr t \<and> model s' = Some m \<and> m t = Inl e \<longrightarrow>
            out = Raise (HTTPException 500 (err_str e)))"
  using assms(1)
proof (cases rule: predict_cases)
  case (load_failed e')
  with assms(2) show ?thesis by (simp add: emit_def)
next
  case (body s1 bo)
  from predict_body_cases [OF body(4)] have ms: "model s' = model s1" by simp
  have bo: "bo = fst (predict_body env s1 d)" using body(4) by simp
  show ?thesis
    using predict_body_preprocess_error [of env d e s1]
      predict_body_model_error [of env d t s1 m e] body(5) ms bo
    by auto
qed


section \<open>Facts about start-up, sequences of requests and the example environments\<close>

lemma startup_event_model:
  "model (snd (startup_event env s)) = None \<longleftrightarrow> model s = None \<and> \<not> load_succeeds env"
  by (auto simp: startup_event_def try_except_Exception_def load_model_def load_succeeds_def
      emit_def Let_def split: sum.splits)

lemma serve_model:
  "model (serve s reqs) \<noteq> None \<longleftrightarrow>
     model s \<noteq> None \<or> (\<exists>(env, d) \<in> set reqs. load_succeeds env)"
proof (induction reqs arbitrary: s)
  case Nil
  then show ?case by simp
next
  case (Cons r reqs)
  obtain env d where r: "r = (env, d)" by (cases r)
  obtain out s' where p: "predict env s d = (out, s')" by (cases "predict env s d")
  from predict_model_after [OF p]
  have "model s' \<noteq> None \<longleftrightarrow> model s \<noteq> None \<or> load_succeeds env"
    by auto
  with Cons.IH [of s'] r p show ?case
    by auto
qed

lemma example_preprocess:
  "preprocess_image example_env example_image = Inr 50176"
  "preprocess_image example_env ''AAAA'' = Inr 50176"
  "preprocess_image example_env_bad_image example_image =
     Inl (PyError ''binascii.Error'' ''Incorrect padding'')"
  "preprocess_image example_env_bad_model example_image = Inr 50176"
  by (simp_all add: preprocess_image_def example_env_def example_image_def py_index_def
      example_env_bad_image_def example_env_bad_model_def)

lemma example_load:
  "load_succeeds example_env" "\<not> load_succeeds example_env_no_file"
  "load_succeeds example_env_bad_image" "load_succeeds example_env_bad_model"
  by (simp_all add: load_succeeds_def example_env_def example_env_no_file_def
      example_env_bad_image_def example_env_bad_model_def)

lemma example_initial: "model (initial_server :: nat server) = None"
  by (simp add: initial_server_def)

lemma example_env_fields:
  "path_exists example_env p" "keras_load_model example_env p = Inr example_model"
  by (simp_all add: example_env_def)

lemma example_predict_first:
  "fst (predict example_env initial_server example_image) =
     Return (build_result example_env lit_0_95)"
  by (simp add: predict_def try_except_Exception_def load_model_def predict_body_def
      example_preprocess initial_server_def emit_def Let_def py_index_def example_model_def
      example_env_fields)

lemma example_loaded_model: "model example_loaded_server = Some example_model"
  by (simp add: example_loaded_server_def predict_def try_except_Exception_def load_model_def
      predict_body_def example_preprocess initial_server_def emit_def Let_def py_index_def
      example_model_def example_env_fields)

lemma example_predict_second:
  "fst (predict example_env example_loaded_server ''AAAA'') =
     Return (build_result example_env lit_0_95)"
  by (simp add: predict_def try_except_Exception_def predict_body_def example_loaded_model
      example_preprocess emit_def Let_def py_index_def example_model_def)

lemma example_predict_no_file:
  "fst (predict example_env_no_file initial_server example_image) =
     Raise (HTTPException 500
       ''Model not loaded: Model file not found at pneumonia_detection_model.h5'')"
  by (simp add: predict_def try_except_Exception_def load_model_def initial_server_def
      emit_def Let_def example_env_no_file_def example_env_def model_path_def)


section \<open>The prediction class\<close>

text \<open>
  Claim C2. For every probability \<open>p\<close> in \<open>[0,1]\<close> the assembled result has the
  prediction "Pneumonia" exactly when \<open>p > 0.5\<close>, and "Normal" otherwise; the inequality is
  strict, so \<open>p = 0.5\<close> gives "Normal". The same test selects the infiltrates and the
  consolidation strings of the details. Every successful response of the handler is such
  an assembled result for the probability it reports.
\<close>

theorem prediction_pneumonia_iff_gt_half:
  assumes "in_unit_interval p"
  shows "(prediction (build_result env p) = ''Pneumonia'' \<longleftrightarrow> float_gt p lit_0_5) \<and>
         (prediction (build_result env p) = ''Normal'' \<longleftrightarrow> \<not> float_gt p lit_0_5) \<and>
         prediction (build_result env lit_0_5) = ''Normal'' \<and>
         infiltrates (details (build_result env p)) =
           (if float_gt p lit_0_5 then ''Likely presence of infiltrates''
            else ''No significant infiltrates detected'') \<and>
         consolidation (details (build_result env p)) =
           (if float_gt p lit_0_5 then ''Potential areas of consolidation observed''
            else ''No consolidation observed'') \<and>
         (predict env s d = (Return res, s') \<and> confidence res = p \<longrightarrow>
            res = build_result env p)"
proof -
  have h: "\<not> float_gt lit_0_5 lit_0_5"
    by (simp add: lit_0_5_def)
  have r: "res = build_result env p" if "predict env s d = (Return res, s')" "confidence res = p"
  proof -
    from predict_outcome [OF that(1)] obtain q where "res = build_result env q"
      by auto
    with that(2) show ?thesis
      by (simp add: build_result_fields)
  qed
  show ?thesis
    using h r by (auto simp: build_result_fields)
qed

theorem prediction_pneumonia_iff_gt_half_witness:
  "in_unit_interval lit_0_5 \<and>
   prediction (build_result example_env lit_0_5) = ''Normal'' \<and>
   infiltrates (details (build_result example_env lit_0_5)) =
     ''No significant infiltrates detected'' \<and>
   in_unit_interval lit_0_95 \<and> float_gt lit_0_95 lit_0_5 \<and>
   prediction (build_result example_env lit_0_95) = ''Pneumonia'' \<and>
   consolidation (details (build_result example_env lit_0_95)) =
     ''Potential areas of consolidation observed''"
proof -
  have a: "in_unit_interval lit_0_5" "\<not> float_gt lit_0_5 lit_0_5"
    by (simp_all add: lit_0_5_def)
  have b: "in_unit_interval lit_0_95" "float_gt lit_0_95 lit_0_5"
    by (simp_all add: lit_0_95_def lit_0_5_def)
  show ?thesis
    using a b prediction_pneumonia_iff_gt_half [OF a(1), of example_env]
      prediction_pneumonia_iff_gt_half [OF b(1), of example_env]
    by simp
qed

section \<open>Severity and recommendations depend on the probability alone\<close>

lemma get_severity_call_eq: "get_severity_call s p = (Return (get_severity p), s)"
  by (simp add: get_severity_call_def get_severity_def)

lemma get_recommendations_call_eq:
  "get_recommendations_call s p sev = (Return (get_recommendations p sev), s)"
  by (simp add: get_recommendations_call_def get_recommendations_def Let_def
      severe_recommendations_def moderate_recommendations_def mild_recommendations_def
      normal_recommendations_def base_recommendations_def)

lemma labels_call_eq:
  "labels_call s p = (Return (get_severity p, get_recommendations p (get_severity p)), s)"
  by (simp add: labels_call_def get_severity_call_eq get_recommendations_call_eq)

text \<open>
  Claim C5. The severity classifier and the recommendation generator are pure and total
  functions of their arguments. Called in any state of the service, each returns a value
  (it never raises), leaves the state as it was (no global is assigned, nothing is
  printed), and returns what the state-free function of the probability gives, so the
  state is not read either. Hence two invocations with the same probability, the
  severity being derived from it, give the same label and the same list, whatever the
  states in which they run; and the label and list of every successful response of the
  handler are these values at the reported probability.
\<close>

theorem severity_and_recommendations_pure:
  "get_severity_call s p = (Return (get_severity p), s) \<and>
   get_recommendations_call s p sev = (Return (get_recommendations p sev), s) \<and>
   labels_call s p = (Return (get_severity p, get_recommendations p (get_severity p)), s) \<and>
   fst (labels_call s1 p) = fst (labels_call s2 p) \<and>
   (predict env s d = (Return r, s') \<longrightarrow>
      fst (labels_call s0 (confidence r)) =
        Return (severity (details r), recommendations r))"
proof -
  have two: "fst (labels_call s1 p) = fst (labels_call s2 p)"
    by (simp add: labels_call_eq)
  have h: "predict env s d = (Return r, s') \<longrightarrow>
      fst (labels_call s0 (confidence r)) = Return (severity (details r), recommendations r)"
  proof
    assume "predict env s d = (Return r, s')"
    from predict_outcome [OF this] obtain q where "r = build_result env q"
      by auto
    then show "fst (labels_call s0 (confidence r)) =
        Return (severity (details r), recommendations r)"
      by (simp add: labels_call_eq build_result_fields)
  qed
  show ?thesis
    using get_severity_call_eq [of s p] get_recommendations_call_eq [of s p sev]
      labels_call_eq [of s p] two h
    by (intro conjI)
qed

theorem severity_and_recommendations_pure_witness:
  "get_severity_call (initial_server :: nat server) lit_0_95 =
     (Return (Some ''Severe''), initial_server) \<and>
   get_severity_call example_loaded_server lit_0_95 =
     (Return (Some ''Severe''), example_loaded_server) \<and>
   example_loaded_server \<noteq> initial_server \<and>
   fst (labels_call (initial_server :: nat server) lit_0_95) =
     fst (labels_call example_loaded_server lit_0_95) \<and>
   (\<exists>r. predict example_env initial_server example_image = (Return r, example_loaded_server) \<and>
        fst (labels_call (initial_server :: nat server) (confidence r)) =
          Return (severity (details r), recommendations r))"
proof -
  let ?r = "build_result example_env lit_0_95"
  have e1: "predict example_env initial_server example_image = (Return ?r, example_loaded_server)"
    using example_predict_first
    by (simp add: example_loaded_server_def prod_eq_iff)
  have ne: "example_loaded_server \<noteq> initial_server"
    using example_loaded_model example_initial by auto
  note t1 = severity_and_recommendations_pure
    [of "initial_server :: nat server" lit_0_95 _ "initial_server :: nat server"
        example_loaded_server example_env example_image ?r example_loaded_server
        "initial_server :: nat server"]
  note t2 = severity_and_recommendations_pure [of example_loaded_server lit_0_95]
  have a: "get_severity_call (initial_server :: nat server) lit_0_95 =
      (Return (Some ''Severe''), initial_server)"
    using t1 [THEN conjunct1] get_severity_samples(1) by simp
  have b: "get_severity_call example_loaded_server lit_0_95 =
      (Return (Some ''Severe''), example_loaded_server)"
    using t2 [THEN conjunct1] get_severity_samples(1) by simp
  have c: "fst (labels_call (initial_server :: nat server) lit_0_95) =
      fst (labels_call example_loaded_server lit_0_95)"
    by (rule t1 [THEN conjunct2, THEN conjunct2, THEN conjunct2, THEN conjunct1])
  have d: "fst (labels_call (initial_server :: nat server) (confidence ?r)) =
      Return (severity (details ?r), recommendations ?r)"
    by (rule t1 [THEN conjunct2, THEN conjunct2, THEN conjunct2, THEN conjunct2, THEN mp,
          OF e1])
  have e: "\<exists>r. predict example_env initial_server example_image =
        (Return r, example_loaded_server) \<and>
      fst (labels_call (initial_server :: nat server) (confidence r)) =
        Return (severity (details r), recommendations r)"
    using e1 d by (intro exI conjI)
  show ?thesis
    using a b ne c e by (intro conjI)
qed

section \<open>Facts about the failing example environments\<close>

lemma example_predict_bad_image:
  "predict example_env_bad_image initial_server example_image =
     (fst (predict example_env_bad_image initial_server example_image),
      snd (predict example_env_bad_image initial_server example_image))"
  "model (snd (predict example_env_bad_image initial_server example_image)) \<noteq> None"
  using predict_model_after [of example_env_bad_image initial_server example_image
      "fst (predict example_env_bad_image initial_server example_image)"
      "snd (predict example_env_bad_image initial_server example_image)"]
    example_load(3) example_initial
  by simp_all

lemma example_env_bad_model_fields:
  "path_exists example_env_bad_model p"
  "keras_load_model example_env_bad_model p =
     Inr (\<lambda>t. Inl (PyError ''ValueError'' ''incompatible input shape''))"
  by (simp_all add: example_env_bad_model_def example_env_def)

lemma example_predict_bad_model:
  "model (snd (predict example_env_bad_model initial_server example_image)) =
     Some (\<lambda>t. Inl (PyError ''ValueError'' ''incompatible input shape''))"
  by (simp add: predict_def try_except_Exception_def load_model_def predict_body_def
      example_preprocess initial_server_def emit_def Let_def py_index_def
      example_env_bad_model_fields)

section \<open>Errors of /predict\<close>

text \<open>
  Claim C6. Every error in handling a /predict request is caught in the handler and
  leaves it as an \<^verbatim>\<open>HTTPException\<close> with status 500 and a message: the handler either
  returns a result or raises such an exception, never anything else. When the model is
  not loaded and the load attempt fails, the message starts with "Model not loaded: ";
  when the image cannot be decoded or preprocessed, or the forward pass raises, the
  message is the text of that exception. Nothing is retried: one request calls
  \<^verbatim>\<open>load_model\<close> once if the model is not loaded and not at all otherwise, and calls
  \<^verbatim>\<open>preprocess_image\<close> and \<^verbatim>\<open>model.predict\<close> at most once each.
\<close>

theorem predict_errors_surface_as_http_500:
  assumes "predict env s d = (out, s')"
  shows "((\<exists>res. out = Return res) \<or> (\<exists>msg. out = Raise (HTTPException 500 msg))) \<and>
         (model s = None \<and> \<not> load_succeeds env \<longrightarrow>
            (\<exists>e. out = Raise (HTTPException 500 (''Model not loaded: '' @ err_str e)))) \<and>
         (model s' \<noteq> None \<and> preprocess_image env d = Inl e \<longrightarrow>
            out = Raise (HTTPException 500 (err_str e))) \<and>
         (model s' = Some m \<and> preprocess_image env d = Inr t \<and> m t = Inl e \<longrightarrow>
            out = Raise (HTTPException 500 (err_str e))) \<and>
         events s' = events s @ new_events s s' \<and>
         count_list (new_events s s') Call_load_model = (if model s = None then 1 else 0) \<and>
         count_list (new_events s s') Call_preprocess_image \<le> 1 \<and>
         count_list (new_events s s') Call_model_predict \<le> 1"
proof -
  have a: "(\<exists>res. out = Return res) \<or> (\<exists>msg. out = Raise (HTTPException 500 msg))"
    using predict_outcome [OF assms] by blast
  have b: "\<exists>e. out = Raise (HTTPException 500 (''Model not loaded: '' @ err_str e))"
    if "model s = None" "\<not> load_succeeds env"
    using predict_unloaded_failure [OF that, of d] assms by auto
  have c: "out = Raise (HTTPException 500 (err_str e))"
    if "model s' \<noteq> None" "preprocess_image env d = Inl e"
    using predict_error_messages [OF assms that(1), of e] that(2) by simp
  have d: "out = Raise (HTTPException 500 (err_str e))"
    if "model s' = Some m" "preprocess_image env d = Inr t" "m t = Inl e"
    using predict_error_messages [OF assms, of e t m] that by simp
  note ev = predict_new_events [OF assms]
  have e: "events s' = events s @ new_events s s'"
    using ev by simp
  have f: "count_list (new_events s s') Call_load_model = (if model s = None then 1 else 0)"
    using ev by (auto split: if_splits)
  have g: "count_list (new_events s s') Call_preprocess_image \<le> 1"
    using ev by (auto split: if_splits)
  have h: "count_list (new_events s s') Call_model_predict \<le> 1"
    using ev by (auto split: if_splits)
  show ?thesis
    using a b c d e f g h by blast
qed

theorem predict_errors_surface_as_http_500_witness:
  "model (initial_server :: nat server) = None \<and> \<not> load_succeeds example_env_no_file \<and>
   (\<exists>e. fst (predict example_env_no_file initial_server example_image) =
          Raise (HTTPException 500 (''Model not loaded: '' @ err_str e))) \<and>
   preprocess_image example_env_bad_image example_image =
     Inl (PyError ''binascii.Error'' ''Incorrect padding'') \<and>
   fst (predict example_env_bad_image initial_server example_image) =
     Raise (HTTPException 500 ''Incorrect padding'') \<and>
   fst (predict example_env_bad_model initial_server example_image) =
     Raise (HTTPException 500 ''incompatible input shape'')"
proof -
  let ?nf = "predict example_env_no_file initial_server example_image"
  let ?bi = "predict example_env_bad_image initial_server example_image"
  let ?bm = "predict example_env_bad_model initial_server example_image"
  have p1: "?nf = (fst ?nf, snd ?nf)" and p2: "?bi = (fst ?bi, snd ?bi)"
    and p3: "?bm = (fst ?bm, snd ?bm)"
    by simp_all
  have c1: "\<exists>e. fst ?nf = Raise (HTTPException 500 (''Model not loaded: '' @ err_str e))"
    using predict_errors_surface_as_http_500 [OF p1] example_initial example_load(2)
    by blast
  have c2: "fst ?bi = Raise (HTTPException 500 ''Incorrect padding'')"
    using predict_errors_surface_as_http_500 [OF p2,
        of "PyError ''binascii.Error'' ''Incorrect padding''"]
      example_predict_bad_image(2) example_preprocess(3)
    by simp
  have c3: "fst ?bm = Raise (HTTPException 500 ''incompatible input shape'')"
    using predict_errors_surface_as_http_500 [OF p3,
        of "PyError ''ValueError'' ''incompatible input shape''"
           "\<lambda>t. Inl (PyError ''ValueError'' ''incompatible input shape'')" 50176]
      example_predict_bad_model example_preprocess(4)
    by simp
  show ?thesis
    using example_initial example_load(2) c1 example_preprocess(3) c2 c3
    by (intro conjI)
qed


section \<open>The load state\<close>

lemma health_check_loaded: "model_loaded (health_check s) = (model s \<noteq> None)"
  by (simp add: health_check_def)

lemma startup_event_loaded:
  "model (snd (startup_event env initial_server)) \<noteq> None \<longleftrightarrow> load_succeeds env"
  using startup_event_model [of env initial_server]
  by (auto simp: initial_server_def)

text \<open>
  Claim C7. The load state is the global \<^verbatim>\<open>model\<close>: not loaded (\<^verbatim>\<open>None\<close>) or loaded,
  and /health reports which. The service starts not loaded. A /predict request in the
  not-loaded state attempts the load exactly once and ends loaded exactly when the load
  succeeds; in the loaded state it attempts no load and keeps the model. After a
  successful /predict request /health reports \<^verbatim>\<open>model_loaded: true\<close>. Over a whole run,
  start-up followed by any sequence of /predict requests, /health reports true exactly
  when some load attempt so far could succeed, so it reports false in every state before
  a load has succeeded.
\<close>

theorem model_load_state_machine:
  assumes "predict env s d = (out, s')"
  shows "model_loaded (health_check s) = (model s \<noteq> None) \<and>
         \<not> model_loaded (health_check (initial_server :: 't server)) \<and>
         (model s = None \<longrightarrow>
            count_list (new_events s s') Call_load_model = 1 \<and>
            (model_loaded (health_check s') \<longleftrightarrow> load_succeeds env)) \<and>
         (model s \<noteq> None \<longrightarrow>
            count_list (new_events s s') Call_load_model = 0 \<and> model s' = model s) \<and>
         ((\<exists>res. out = Return res) \<longrightarrow> model_loaded (health_check s')) \<and>
         (model_loaded (health_check (serve (snd (startup_event env0 initial_server)) reqs)) \<longleftrightarrow>
            load_succeeds env0 \<or> (\<exists>(env1, d1) \<in> set reqs. load_succeeds env1))"
proof -
  note ev = predict_new_events [OF assms]
  note ma = predict_model_after [OF assms]
  have h: "model_loaded (health_check s) = (model s \<noteq> None)"
    by (rule health_check_loaded)
  have e: "\<not> model_loaded (health_check (initial_server :: 't server))"
    by (simp add: health_check_loaded initial_server_def)
  have a: "model s = None \<longrightarrow>
      count_list (new_events s s') Call_load_model = 1 \<and>
      (model_loaded (health_check s') \<longleftrightarrow> load_succeeds env)"
    using ev ma by (auto simp: health_check_loaded split: if_splits)
  have b: "model s \<noteq> None \<longrightarrow>
      count_list (new_events s s') Call_load_model = 0 \<and> model s' = model s"
    using ev ma by (auto split: if_splits)
  have c: "(\<exists>res. out = Return res) \<longrightarrow> model_loaded (health_check s')"
    using predict_outcome [OF assms] by (auto simp: health_check_loaded)
  have d: "model_loaded (health_check (serve (snd (startup_event env0 initial_server)) reqs)) \<longleftrightarrow>
      load_succeeds env0 \<or> (\<exists>(env1, d1) \<in> set reqs. load_succeeds env1)"
    using serve_model [of "snd (startup_event env0 initial_server)" reqs]
      startup_event_loaded [of env0]
    by (simp add: health_check_loaded)
  show ?thesis
    using h e a b c d by (intro conjI)
qed

theorem model_load_state_machine_witness:
  "\<not> model_loaded (health_check (initial_server :: nat server)) \<and>
   \<not> model_loaded (health_check
       (snd (predict example_env_no_file initial_server example_image))) \<and>
   model_loaded (health_check (snd (predict example_env initial_server example_image))) \<and>
   model_loaded (health_check
     (serve (snd (startup_event example_env_no_file initial_server))
        [(example_env_no_file, example_image), (example_env, example_image),
         (example_env_no_file, example_image)]))"
proof -
  let ?nf = "predict example_env_no_file initial_server example_image"
  let ?ok = "predict example_env initial_server example_image"
  have p1: "?nf = (fst ?nf, snd ?nf)" and p2: "?ok = (fst ?ok, snd ?ok)"
    by simp_all
  note t1 = model_load_state_machine [OF p1,
      of example_env_no_file
         "[(example_env_no_file, example_image), (example_env, example_image),
           (example_env_no_file, example_image)]"]
  note t2 = model_load_state_machine [OF p2, of example_env "[]"]
  have a: "\<not> model_loaded (health_check (initial_server :: nat server))"
    by (rule t1 [THEN conjunct2, THEN conjunct1])
  have "model_loaded (health_check (snd ?nf)) \<longleftrightarrow> load_succeeds example_env_no_file"
    by (rule t1 [THEN conjunct2, THEN conjunct2, THEN conjunct1, THEN mp,
          OF example_initial, THEN conjunct2])
  then have b: "\<not> model_loaded (health_check (snd ?nf))"
    using example_load(2) by simp
  have "model_loaded (health_check (snd ?ok)) \<longleftrightarrow> load_succeeds example_env"
    by (rule t2 [THEN conjunct2, THEN conjunct2, THEN conjunct1, THEN mp,
          OF example_initial, THEN conjunct2])
  then have c: "model_loaded (health_check (snd ?ok))"
    using example_load(1) by simp
  have "model_loaded (health_check
     (serve (snd (startup_event example_env_no_file initial_server))
        [(example_env_no_file, example_image), (example_env, example_image),
         (example_env_no_file, example_image)])) \<longleftrightarrow>
     load_succeeds example_env_no_file \<or>
     (\<exists>(env1, d1) \<in> set [(example_env_no_file, example_image), (example_env, example_image),
         (example_env_no_file, example_image)]. load_succeeds env1)"
    by (rule t1 [THEN conjunct2, THEN conjunct2, THEN conjunct2, THEN conjunct2,
          THEN conjunct2])
  then have d: "model_loaded (health_check
     (serve (snd (startup_event example_env_no_file initial_server))
        [(example_env_no_file, example_image), (example_env, example_image),
         (example_env_no_file, example_image)]))"
    using example_load(1) by simp
  show ?thesis
    using a b c d by (intro conjI)
qed

section \<open>The command-line tool\<close>

lemma cli_main_success:
  assumes "cli_steps env = Inr p"
  shows "cli_main env =
           (Raise (SystemExit 0),
            \<lparr>stdout = [Result_json p (float_gt p lit_0_5)],
             cli_calls = [Call_open ''ensemble_model.pkl'', Call_pickle_load,
                          Call_open ''temp_input.json'', Call_json_load, Call_reshape,
                          Call_predict_proba]\<rparr>)"
  using assms
  by (auto simp: cli_steps_def cli_main_def cli_try_body_def try_except_Exception_def
      called_def print_line_def Let_def split: sum.splits)

lemma cli_main_failure:
  assumes "cli_steps env = Inl e"
  shows "fst (cli_main env) = Raise (SystemExit 1) \<and>
         stdout (snd (cli_main env)) = [Error_json (err_str e)] \<and>
         distinct (cli_calls (snd (cli_main env)))"
  using assms
  by (auto simp: cli_steps_def cli_main_def cli_try_body_def try_except_Exception_def
      called_def print_line_def Let_def split: sum.splits)


lemma example_cli_steps:
  "cli_steps example_cli_env = Inr lit_0_6"
  "cli_steps example_cli_env_no_input =
     Inl (PyError ''FileNotFoundError'' ''No such file or directory'')"
  by (simp_all add: cli_steps_def example_cli_env_def example_cli_env_no_input_def
      py_index_def)

text \<open>
  Claim C9. When every step of the script succeeds, it prints one JSON object with the
  probability (entry 1 of row 0 of \<^verbatim>\<open>predict_proba\<close>) and the prediction
  \<open>probability > 0.5\<close>, and exits with code 0: the \<^verbatim>\<open>SystemExit\<close> raised inside the
  \<^verbatim>\<open>try\<close> block is not caught by \<^verbatim>\<open>except Exception\<close>. When a step fails (for
  example the model file cannot be opened), it prints one JSON error object with the text
  of the exception and exits with code 1. In both cases exactly one line is printed and no
  call is made twice.
\<close>

theorem cli_main_exit_codes:
  "(cli_steps env = Inr p \<longrightarrow>
      fst (cli_main env) = Raise (SystemExit 0) \<and>
      stdout (snd (cli_main env)) = [Result_json p (float_gt p lit_0_5)] \<and>
      exit_code (fst (cli_main env)) = 0) \<and>
   (cli_steps env = Inl e \<longrightarrow>
      fst (cli_main env) = Raise (SystemExit 1) \<and>
      stdout (snd (cli_main env)) = [Error_json (err_str e)] \<and>
      exit_code (fst (cli_main env)) = 1) \<and>
   (open_file env ''ensemble_model.pkl'' ''rb'' = Inl e \<longrightarrow> cli_steps env = Inl e) \<and>
   length (stdout (snd (cli_main env))) = 1 \<and>
   distinct (cli_calls (snd (cli_main env)))"
proof -
  have a: "cli_steps env = Inr p \<longrightarrow>
      fst (cli_main env) = Raise (SystemExit 0) \<and>
      stdout (snd (cli_main env)) = [Result_json p (float_gt p lit_0_5)] \<and>
      exit_code (fst (cli_main env)) = 0"
    using cli_main_success [of env p] by simp
  have b: "cli_steps env = Inl e \<longrightarrow>
      fst (cli_main env) = Raise (SystemExit 1) \<and>
      stdout (snd (cli_main env)) = [Error_json (err_str e)] \<and>
      exit_code (fst (cli_main env)) = 1"
    using cli_main_failure [of env e] by simp
  have c: "open_file env ''ensemble_model.pkl'' ''rb'' = Inl e \<longrightarrow> cli_steps env = Inl e"
    by (simp add: cli_steps_def)
  have "length (stdout (snd (cli_main env))) = 1 \<and> distinct (cli_calls (snd (cli_main env)))"
  proof (cases "cli_steps env")
    case (Inl e')
    with cli_main_failure [of env e'] show ?thesis by simp
  next
    case (Inr p')
    with cli_main_success [of env p'] show ?thesis by simp
  qed
  then have d: "length (stdout (snd (cli_main env))) = 1"
    and f: "distinct (cli_calls (snd (cli_main env)))"
    by simp_all
  show ?thesis
    using a b c d f by (intro conjI)
qed

theorem cli_main_exit_codes_witness:
  "cli_steps example_cli_env = Inr lit_0_6 \<and>
   fst (cli_main example_cli_env) = Raise (SystemExit 0) \<and>
   stdout (snd (cli_main example_cli_env)) = [Result_json lit_0_6 True] \<and>
   exit_code (fst (cli_main example_cli_env)) = 0 \<and>
   cli_steps example_cli_env_no_input =
     Inl (PyError ''FileNotFoundError'' ''No such file or directory'') \<and>
   fst (cli_main example_cli_env_no_input) = Raise (SystemExit 1) \<and>
   stdout (snd (cli_main example_cli_env_no_input)) =
     [Error_json ''No such file or directory''] \<and>
   exit_code (fst (cli_main example_cli_env_no_input)) = 1"
proof -
  have g: "float_gt lit_0_6 lit_0_5"
    by (simp add: lit_0_6_def lit_0_5_def)
  note t1 = cli_main_exit_codes [of example_cli_env lit_0_6, THEN conjunct1, THEN mp,
      OF example_cli_steps(1)]
  note t2 = cli_main_exit_codes [of example_cli_env_no_input _
      "PyError ''FileNotFoundError'' ''No such file or directory''",
      THEN conjunct2, THEN conjunct1, THEN mp, OF example_cli_steps(2)]
  show ?thesis
    using t1 t2 g example_cli_steps by simp
qed

section \<open>The image normalizer\<close>

lemma py_split_no_sep: "\<not> py_contains sep s \<Longrightarrow> py_split sep acc s = [rev acc @ s]"
  by (induction s arbitrary: acc) auto

lemma py_split_first:
  "\<not> py_contains (bl @ [l]) (pre @ bl) \<Longrightarrow>
     py_split (bl @ [l]) acc (pre @ bl @ l # rest) =
       (rev acc @ pre) # py_split (bl @ [l]) [] rest"
proof (induction pre arbitrary: acc)
  case Nil
  show ?case by (cases bl) simp_all
next
  case (Cons c pre)
  then show ?case by simp
qed

lemma py_contains_first: "py_contains (bl @ [l]) (pre @ bl @ l # rest)"
proof (induction pre)
  case Nil
  show ?case by (cases bl) simp_all
next
  case (Cons c pre)
  then show ?case by simp
qed

lemma strip_data_url:
  assumes "\<not> py_contains ''base64,'' (pre @ ''base64'')" "\<not> py_contains ''base64,'' payload"
  shows "py_contains ''base64,'' (pre @ ''base64,'' @ payload) \<and>
         py_index (py_split ''base64,'' [] (pre @ ''base64,'' @ payload)) 1 = Inr payload"
proof -
  have e: "''base64,'' = ''base64'' @ [CHR '','']" by simp
  have "py_split (''base64'' @ [CHR '','']) [] (pre @ ''base64'' @ CHR '','' # payload) =
      pre # py_split (''base64'' @ [CHR '','']) [] payload"
    using py_split_first [of "''base64''" "CHR '',''" pre "[]" payload] assms(1) by simp
  moreover have "py_split (''base64'' @ [CHR '','']) [] payload = [payload]"
    using py_split_no_sep [of "''base64,''" payload "[]"] assms(2) by simp
  ultimately have "py_split ''base64,'' [] (pre @ ''base64,'' @ payload) = [pre, payload]"
    by simp
  moreover have "py_contains ''base64,'' (pre @ ''base64,'' @ payload)"
    using py_contains_first [of "''base64''" "CHR '',''" pre payload] by simp
  ultimately show ?thesis
    by (simp add: py_index_def)
qed


lemma sum_case_Inr:
  "(case x of Inl e \<Rightarrow> Inl e | Inr v \<Rightarrow> f v) = Inr t \<Longrightarrow> \<exists>v. x = Inr v \<and> f v = Inr t"
  by (cases x) simp_all

lemma preprocess_image_steps:
  assumes "preprocess_image env image_data = Inr t"
  shows "\<exists>data bytes img img1 img2 arr.
           (if py_contains ''base64,'' image_data
            then py_index (py_split ''base64,'' [] image_data) 1
            else Inr image_data) = Inr data \<and>
           b64decode env data = Inr bytes \<and>
           image_open env bytes = Inr img \<and>
           (if image_mode env img \<noteq> ''RGB'' then image_convert env img ''RGB''
            else Inr img) = Inr img1 \<and>
           image_resize env img1 (224, 224) = Inr img2 \<and>
           array_divide env img2 lit_255 = Inr arr \<and>
           expand_dims env arr 0 = Inr t"
proof -
  note a = assms [unfolded preprocess_image_def]
  from sum_case_Inr [OF a] obtain data where
    s1: "(if py_contains ''base64,'' image_data
          then py_index (py_split ''base64,'' [] image_data) 1
          else Inr image_data) = Inr data"
    and r1: "(case b64decode env data of Inl e \<Rightarrow> Inl e | Inr bytes \<Rightarrow>
       (case image_open env bytes of Inl e \<Rightarrow> Inl e | Inr img \<Rightarrow>
       (case (if image_mode env img \<noteq> ''RGB'' then image_convert env img ''RGB''
              else Inr img) of Inl e \<Rightarrow> Inl e | Inr img1 \<Rightarrow>
       (case image_resize env img1 (224, 224) of Inl e \<Rightarrow> Inl e | Inr img2 \<Rightarrow>
       (case array_divide env img2 lit_255 of Inl e \<Rightarrow> Inl e
        | Inr img_array \<Rightarrow> expand_dims env img_array 0))))) = Inr t"
    by (elim exE conjE)
  from sum_case_Inr [OF r1] obtain bytes where
    s2: "b64decode env data = Inr bytes"
    and r2: "(case image_open env bytes of Inl e \<Rightarrow> Inl e | Inr img \<Rightarrow>
       (case (if image_mode env img \<noteq> ''RGB'' then image_convert env img ''RGB''
              else Inr img) of Inl e \<Rightarrow> Inl e | Inr img1 \<Rightarrow>
       (case image_resize env img1 (224, 224) of Inl e \<Rightarrow> Inl e | Inr img2 \<Rightarrow>
       (case array_divide env img2 lit_255 of Inl e \<Rightarrow> Inl e
        | Inr img_array \<Rightarrow> expand_dims env img_array 0)))) = Inr t"
    by (elim exE conjE)
  from sum_case_Inr [OF r2] obtain img where
    s3: "image_open env bytes = Inr img"
    and r3: "(case (if image_mode env img \<noteq> ''RGB'' then image_convert env img ''RGB''
              else Inr img) of Inl e \<Rightarrow> Inl e | Inr img1 \<Rightarrow>
       (case image_resize env img1 (224, 224) of Inl e \<Rightarrow> Inl e | Inr img2 \<Rightarrow>
       (case array_divide env img2 lit_255 of Inl e \<Rightarrow> Inl e
        | Inr img_array \<Rightarrow> expand_dims env img_array 0))) = Inr t"
    by (elim exE conjE)
  from sum_case_Inr [OF r3] obtain img1 where
    s4: "(if image_mode env img \<noteq> ''RGB'' then image_convert env img ''RGB''
          else Inr img) = Inr img1"
    and r4: "(case image_resize env img1 (224, 224) of Inl e \<Rightarrow> Inl e | Inr img2 \<Rightarrow>
       (case array_divide env img2 lit_255 of Inl e \<Rightarrow> Inl e
        | Inr img_array \<Rightarrow> expand_dims env img_array 0)) = Inr t"
    by (elim exE conjE)
  from sum_case_Inr [OF r4] obtain img2 where
    s5: "image_resize env img1 (224, 224) = Inr img2"
    and r5: "(case array_divide env img2 lit_255 of Inl e \<Rightarrow> Inl e
        | Inr img_array \<Rightarrow> expand_dims env img_array 0) = Inr t"
    by (elim exE conjE)
  from sum_case_Inr [OF r5] obtain arr where
    s6: "array_divide env img2 lit_255 = Inr arr"
    and s7: "expand_dims env arr 0 = Inr t"
    by (elim exE conjE)
  show ?thesis
    using s1 s2 s3 s4 s5 s6 s7 by (intro exI conjI)
qed

lemma rounded_quotient_in_unit_interval:
  assumes "mono rnd" "rnd 0 = 0" "rnd 1 = 1" "v \<le> (255::nat)"
  shows "in_unit_interval (Finite (rnd (real v / 255)))"
proof -
  have lo: "0 \<le> real v / 255" and hi: "real v / 255 \<le> 1"
    using assms(4) by simp_all
  have "rnd 0 \<le> rnd (real v / 255)"
    by (rule monoD [OF assms(1) lo])
  moreover have "rnd (real v / 255) \<le> rnd 1"
    by (rule monoD [OF assms(1) hi])
  ultimately show ?thesis
    using assms(2,3) by simp
qed


text \<open>
  Claim C4. For every input the normalizer accepts, whatever the resolution and the
  colour mode of the decoded image, it performs these steps in this order: it strips the
  prefix up to and including "base64," when the input has one, base64-decodes the rest,
  decodes the image, converts it to RGB unless its mode is RGB already, resizes it to 224
  by 224, divides the channel values by 255.0, and prepends a batch dimension. With PIL
  and numpy behaving as documented, the result has shape (1, 224, 224, 3) and every entry
  lies in the closed interval from 0 to 1.
\<close>

theorem preprocess_image_shape_and_range:
  assumes "pil_numpy_contract env img_size arr_shape arr_values rnd"
    and "preprocess_image env image_data = Inr t"
  shows "arr_shape t = [1, 224, 224, 3] \<and>
         (\<forall>x \<in> set (arr_values t). in_unit_interval x) \<and>
         (\<exists>data bytes img img1 img2 arr.
            (if py_contains ''base64,'' image_data
             then py_index (py_split ''base64,'' [] image_data) 1
             else Inr image_data) = Inr data \<and>
            (\<forall>pre payload.
               image_data = pre @ ''base64,'' @ payload \<and>
               \<not> py_contains ''base64,'' (pre @ ''base64'') \<and>
               \<not> py_contains ''base64,'' payload \<longrightarrow> data = payload) \<and>
            (\<not> py_contains ''base64,'' image_data \<longrightarrow> data = image_data) \<and>
            b64decode env data = Inr bytes \<and>
            image_open env bytes = Inr img \<and>
            (if image_mode env img \<noteq> ''RGB'' then image_convert env img ''RGB''
             else Inr img) = Inr img1 \<and>
            image_mode env img1 = ''RGB'' \<and>
            image_resize env img1 (224, 224) = Inr img2 \<and>
            img_size img2 = (224, 224) \<and>
            array_divide env img2 lit_255 = Inr arr \<and>
            arr_shape arr = [224, 224, 3] \<and>
            expand_dims env arr 0 = Inr t)"
proof -
  from preprocess_image_steps [OF assms(2)] obtain data bytes img img1 img2 arr where
    s1: "(if py_contains ''base64,'' image_data
          then py_index (py_split ''base64,'' [] image_data) 1
          else Inr image_data) = Inr data"
    and s2: "b64decode env data = Inr bytes"
    and s3: "image_open env bytes = Inr img"
    and s4: "(if image_mode env img \<noteq> ''RGB'' then image_convert env img ''RGB''
        else Inr img) = Inr img1"
    and s5: "image_resize env img1 (224, 224) = Inr img2"
    and s6: "array_divide env img2 lit_255 = Inr arr"
    and s7: "expand_dims env arr 0 = Inr t"
    by (elim exE conjE)
  note c = assms(1) [unfolded pil_numpy_contract_def]
  note conv = c [THEN conjunct1, rule_format]
  note res = c [THEN conjunct2, THEN conjunct1, rule_format]
  note dv = c [THEN conjunct2, THEN conjunct2, THEN conjunct1, rule_format]
  note ex = c [THEN conjunct2, THEN conjunct2, THEN conjunct2, THEN conjunct1, rule_format]
  note rn = c [THEN conjunct2, THEN conjunct2, THEN conjunct2, THEN conjunct2]
  have rn': "mono rnd" "rnd 0 = 0" "rnd 1 = 1"
    using rn by simp_all
  have m1: "image_mode env img1 = ''RGB''"
  proof (cases "image_mode env img = ''RGB''")
    case True
    with s4 show ?thesis by simp
  next
    case False
    with s4 have "image_convert env img ''RGB'' = Inr img1" by simp
    then show ?thesis by (rule conv)
  qed
  from res [OF s5] m1 have s2': "img_size img2 = (224, 224)"
    and m2: "image_mode env img2 = ''RGB''"
    by simp_all
  have d: "array_divide env img2 (Finite 255) = Inr arr"
    using s6 by (simp add: lit_255_def)
  from dv [OF conjI [OF m2 d]] s2' have sh: "arr_shape arr = [224, 224, 3]"
    and vals: "\<forall>x \<in> set (arr_values arr). \<exists>v::nat. v \<le> 255 \<and> x = Finite (rnd (real v / 255))"
    by simp_all
  from ex [OF s7] sh have sht: "arr_shape t = [1, 224, 224, 3]"
    and vt: "arr_values t = arr_values arr"
    by simp_all
  have rng: "\<forall>x \<in> set (arr_values t). in_unit_interval x"
  proof
    fix x
    assume "x \<in> set (arr_values t)"
    with vt vals obtain v :: nat where "v \<le> 255" "x = Finite (rnd (real v / 255))"
      by auto
    then show "in_unit_interval x"
      using rounded_quotient_in_unit_interval [OF rn', of v] by simp
  qed
  have pre: "\<forall>pre payload.
      image_data = pre @ ''base64,'' @ payload \<and>
      \<not> py_contains ''base64,'' (pre @ ''base64'') \<and>
      \<not> py_contains ''base64,'' payload \<longrightarrow> data = payload"
  proof (intro allI impI, elim conjE)
    fix pre payload
    assume h: "image_data = pre @ ''base64,'' @ payload"
      "\<not> py_contains ''base64,'' (pre @ ''base64'')" "\<not> py_contains ''base64,'' payload"
    from strip_data_url [OF h(2,3)] s1 h(1) show "data = payload"
      by simp
  qed
  have nopre: "\<not> py_contains ''base64,'' image_data \<longrightarrow> data = image_data"
  proof
    assume "\<not> py_contains ''base64,'' image_data"
    with s1 show "data = image_data" by simp
  qed
  have chain: "\<exists>data bytes img img1 img2 arr.
            (if py_contains ''base64,'' image_data
             then py_index (py_split ''base64,'' [] image_data) 1
             else Inr image_data) = Inr data \<and>
            (\<forall>pre payload.
               image_data = pre @ ''base64,'' @ payload \<and>
               \<not> py_contains ''base64,'' (pre @ ''base64'') \<and>
               \<not> py_contains ''base64,'' payload \<longrightarrow> data = payload) \<and>
            (\<not> py_contains ''base64,'' image_data \<longrightarrow> data = image_data) \<and>
            b64decode env data = Inr bytes \<and>
            image_open env bytes = Inr img \<and>
            (if image_mode env img \<noteq> ''RGB'' then image_convert env img ''RGB''
             else Inr img) = Inr img1 \<and>
            image_mode env img1 = ''RGB'' \<and>
            image_resize env img1 (224, 224) = Inr img2 \<and>
            img_size img2 = (224, 224) \<and>
            array_divide env img2 lit_255 = Inr arr \<and>
            arr_shape arr = [224, 224, 3] \<and>
            expand_dims env arr 0 = Inr t"
    using s1 pre nopre s2 s3 s4 m1 s5 s2' s6 sh s7 by (intro exI conjI)
  show ?thesis
    using sht rng chain by (intro conjI)
qed

lemma example_pil_contract:
  "pil_numpy_contract example_pil_env example_img_size fst snd (\<lambda>x. x)"
proof -
  have b: "unat v \<le> 255" for v :: "8 word"
    using unsigned_less [of v, where 'a = nat] by simp
  show ?thesis
    unfolding pil_numpy_contract_def
    by (auto simp: example_pil_env_def example_img_size_def mono_def intro: b)
qed

lemma example_pil_preprocess:
  "preprocess_image example_pil_env example_image =
     Inr ([1, 224, 224, 3], [Finite 0, Finite (128 / 255), Finite 1])"
  by (simp add: preprocess_image_def example_pil_env_def example_image_def py_index_def
      lit_255_def)


theorem preprocess_image_shape_and_range_witness:
  "pil_numpy_contract example_pil_env example_img_size fst snd (\<lambda>x. x) \<and>
   preprocess_image example_pil_env example_image =
     Inr ([1, 224, 224, 3], [Finite 0, Finite (128 / 255), Finite 1]) \<and>
   fst ([1, 224, 224, 3], [Finite 0, Finite (128 / 255), Finite 1]) = [1, 224, 224, 3 :: nat] \<and>
   list_all in_unit_interval
     (snd ([1, 224, 224, 3 :: nat], [Finite 0, Finite (128 / 255), Finite 1]))"
proof -
  note t = preprocess_image_shape_and_range [OF example_pil_contract example_pil_preprocess]
  have a: "fst ([1, 224, 224, 3], [Finite 0, Finite (128 / 255), Finite 1]) =
      [1, 224, 224, 3 :: nat]"
    by (rule t [THEN conjunct1])
  have b: "list_all in_unit_interval
      (snd ([1, 224, 224, 3 :: nat], [Finite 0, Finite (128 / 255), Finite 1]))"
    unfolding list_all_iff by (rule t [THEN conjunct2, THEN conjunct1])
  show ?thesis
    using example_pil_contract example_pil_preprocess a b by (intro conjI)
qed

end
